theory Spec2Isabelle
  imports Complex_Main
begin

section \<open>The telemetry core of PiRudderTach.py\<close>

text \<open>
  The display program keeps a handful of module-level variables (the serial handle, two
  timestamps, the displayed and smoothed gauge values, the gear code and the fuel rate)
  and runs one loop: try to open the serial port, read and parse one line, check
  staleness, draw. The variables become one record that every function takes and
  returns; what the outside world answers (the clock, the serial driver) is an argument
  of the function that asks.

  Numbers. Python integers are \<open>int\<close>. A Python float is modelled by the rational it
  stands for, and float arithmetic by exact arithmetic: the rounding to binary64 is not
  part of the model (so \<open>alpha\<close> is exactly three tenths). The one place where the
  finite range of binary64 changes the control flow is modelled: the division of two
  integers in \<open>map_value\<close> raises \<open>OverflowError\<close> when the quotient is too large for
  a float. Clock readings of \<open>time.monotonic()\<close> are rationals too.

  Text. The line read from the port is taken after
  \<open>raw.decode("utf-8", errors="ignore")\<close>, which cannot raise; its characters are the
  8-bit characters of HOL. An empty \<open>raw\<close> decodes to the empty text.

  Built-ins. \<open>int(...)\<close> and \<open>float(...)\<close> are Python's, not this repository's: the
  parsing functions take them as arguments \<open>py_int\<close> and \<open>py_float\<close>, which answer with
  the parsed value or with the exception raised.

  Left out: the drawing of the gauges (but for the two texts shown in the fuel and gear
  boxes), the input events and the button that end the loop, and the console output of
  \<open>print\<close>. Exceptions are those that \<open>except Exception\<close> catches.
\<close>

subsection \<open>Exceptions and values\<close>

datatype error = ValueError | ZeroDivisionError | OverflowError | SerialException | OSError

text \<open>What \<open>float(...)\<close> can return: a finite number, an infinity or a NaN.\<close>

datatype pyfloat = Finite rat | PosInf | NegInf | NaN

text \<open>The object returned by \<open>serial.Serial(port, baud, timeout=0.05)\<close>.\<close>

datatype serial = Serial string nat

definition SERIAL_PORT :: string where
  "SERIAL_PORT = ''/dev/ttyUSB0''"

definition SERIAL_BAUD :: nat where
  "SERIAL_BAUD = 57600"

definition DATA_STALE_SECONDS :: rat where
  "DATA_STALE_SECONDS = 1"

definition SERIAL_RETRY_SECONDS :: rat where
  "SERIAL_RETRY_SECONDS = 2"

subsection \<open>The module-level state\<close>

record state =
  ser :: "serial option"
  last_serial_try_time :: rat
  last_good_frame_time :: rat
  rudder_angle :: rat
  engine_rpm :: rat
  smoothed_engine_rpm :: rat
  smoothed_rudder_angle :: rat
  shift_indicator :: "int option"
  fuel_consumption :: "pyfloat option"

text \<open>The values the module assigns before any function runs (lines 49 to 60).\<close>

definition module_state :: state where
  "module_state =
     \<lparr>ser = None, last_serial_try_time = 0, last_good_frame_time = 0,
      rudder_angle = 180, engine_rpm = 3000, smoothed_engine_rpm = 3000,
      smoothed_rudder_angle = 180, shift_indicator = None, fuel_consumption = None\<rparr>"

subsection \<open>map_value\<close>

text \<open>
  The quotient of two integers, \<open>a / b\<close>, is the float nearest to the exact quotient
  (ties to the even one); Python raises \<open>OverflowError\<close> when that float would not be
  finite, which is when the exact quotient has magnitude at least \<open>2^1024 - 2^970\<close>,
  half a step beyond the largest float.
\<close>

definition float_overflow :: "rat \<Rightarrow> bool" where
  "float_overflow q = (2 ^ 1024 - 2 ^ 970 \<le> \<bar>q\<bar>)"

text \<open>
  \<open>map_value\<close> as the two calls of lines 136 and 137 use it, with integer arguments:
  the difference and the product are exact integers, the division is the division of
  two integers, and the sum with \<open>out_min\<close> is a float. The model raises exactly where
  Python raises (on a zero divisor and on overflow) and otherwise returns the exact
  value of the expression, which Python rounds to binary64. The call of
  \<open>draw_rpm_gauge\<close>, whose first argument is a float, belongs to the drawing and is not
  modelled.
\<close>

definition map_value :: "int \<Rightarrow> int \<Rightarrow> int \<Rightarrow> int \<Rightarrow> int \<Rightarrow> error + rat" where
  "map_value v in_min in_max out_min out_max =
     (if in_max - in_min = 0 then Inl ZeroDivisionError
      else
        (let q = of_int ((v - in_min) * (out_max - out_min)) / of_int (in_max - in_min)
         in if float_overflow q then Inl OverflowError
            else Inr (q + of_int out_min)))"

subsection \<open>try_open_serial and close_serial\<close>

text \<open>
  \<open>now\<close> is the reading of the clock at line 68, \<open>open_r\<close> what the constructor
  \<open>serial.Serial(...)\<close> does when called, \<open>reset_r\<close> what \<open>reset_input_buffer()\<close> does.
  The function returns nothing in Python; the Boolean of the model records whether the
  constructor was called. Both raising calls sit inside the \<open>try\<close>, whose handler only
  assigns \<open>None\<close>.
\<close>

definition try_open_serial ::
  "rat \<Rightarrow> error + serial \<Rightarrow> error + unit \<Rightarrow> state \<Rightarrow> bool \<times> state" where
  "try_open_serial now open_r reset_r s =
     (if ser s \<noteq> None then (False, s)
      else if now - last_serial_try_time s < SERIAL_RETRY_SECONDS then (False, s)
      else
        (let s1 = s\<lparr>last_serial_try_time := now\<rparr>
         in (True,
             case open_r of
               Inl e \<Rightarrow> s1\<lparr>ser := None\<rparr>
             | Inr h \<Rightarrow>
                 (case reset_r of
                    Inl e \<Rightarrow> s1\<lparr>ser := None\<rparr>
                  | Inr u \<Rightarrow> s1\<lparr>ser := Some h\<rparr>))))"

text \<open>
  \<open>close_r\<close> is what \<open>ser.close()\<close> does when called. An exception of the call is
  swallowed by \<open>except Exception: pass\<close>; the handle is dropped either way. Besides
  the state, the model returns the handles on which \<open>close()\<close> was called (one or
  none).
\<close>

definition close_serial :: "error + unit \<Rightarrow> state \<Rightarrow> error + serial list \<times> state" where
  "close_serial close_r s =
     (let calls = (case ser s of
                     Some h \<Rightarrow> (case close_r of Inl e \<Rightarrow> [h] | Inr u \<Rightarrow> [h])
                   | None \<Rightarrow> [])
      in Inr (calls, s\<lparr>ser := None\<rparr>))"

subsection \<open>set_no_data_state\<close>

definition set_no_data_state :: "state \<Rightarrow> state" where
  "set_no_data_state s =
     (let s1 = s\<lparr>smoothed_rudder_angle := 180\<rparr>;
          s2 = s1\<lparr>smoothed_engine_rpm := 3000\<rparr>;
          s3 = s2\<lparr>rudder_angle := smoothed_rudder_angle s2\<rparr>;
          s4 = s3\<lparr>engine_rpm := smoothed_engine_rpm s3\<rparr>;
          s5 = s4\<lparr>shift_indicator := None\<rparr>
      in s5\<lparr>fuel_consumption := None\<rparr>)"

subsection \<open>Text: strip and split\<close>

text \<open>
  \<open>str.strip()\<close> removes the characters for which \<open>str.isspace\<close> holds from both
  ends; below code point 256 these are 9 to 13, 28 to 32, 133 and 160.
\<close>

definition is_space :: "char \<Rightarrow> bool" where
  "is_space c =
     (let n = (of_char c :: nat)
      in (9 \<le> n \<and> n \<le> 13) \<or> (28 \<le> n \<and> n \<le> 32) \<or> n = 133 \<or> n = 160)"

definition strip :: "string \<Rightarrow> string" where
  "strip txt = rev (dropWhile is_space (rev (dropWhile is_space txt)))"

text \<open>\<open>data.split(",")\<close>: the fields between the commas, at least one, possibly empty.\<close>

fun split_comma :: "string \<Rightarrow> string list" where
  "split_comma [] = [[]]"
| "split_comma (c # cs) =
     (if c = CHR '','' then [] # split_comma cs
      else (case split_comma cs of
              [] \<Rightarrow> [[c]]
            | f # fs \<Rightarrow> (c # f) # fs))"

subsection \<open>process_serial_data\<close>

text \<open>
  The body of the \<open>try\<close> block (lines 118 to 154). It returns the state as the body
  left it together with how the body ended: \<open>Inr ()\<close> for a \<open>return\<close> or the end of
  the block, \<open>Inl e\<close> for an exception. The assignments to the globals
  \<open>shift_indicator\<close> and \<open>fuel_consumption\<close> happen where the source has them, before
  the later fields are parsed. \<open>read_r\<close> is what \<open>ser.readline()\<close> does, \<open>now\<close> the
  clock reading of line 154.
\<close>

definition process_frame ::
  "(string \<Rightarrow> error + int) \<Rightarrow> (string \<Rightarrow> error + pyfloat) \<Rightarrow>
   error + string \<Rightarrow> rat \<Rightarrow> state \<Rightarrow> (error + unit) \<times> state" where
  "process_frame py_int py_float read_r now s =
     (case read_r of
        Inl e \<Rightarrow> (Inl e, s)
      | Inr raw \<Rightarrow>
          if raw = [] then (Inr (), s)
          else
            (let data = strip raw
             in if data = [] then (Inr (), s)
                else
                  (let values = split_comma data
                   in if length values < 4 then (Inr (), s)
                      else
                        (case py_int (values ! 0) of
                           Inl e \<Rightarrow> (Inl e, s)
                         | Inr pot_value \<Rightarrow>
                        (case py_int (values ! 1) of
                           Inl e \<Rightarrow> (Inl e, s)
                         | Inr pot_value2 \<Rightarrow>
                        (case py_int (values ! 2) of
                           Inl e \<Rightarrow> (Inl e, s)
                         | Inr gear \<Rightarrow>
                        (let s1 = s\<lparr>shift_indicator := Some gear\<rparr>
                         in
                        (case py_float (values ! 3) of
                           Inl e \<Rightarrow> (Inl e, s1)
                         | Inr fuel \<Rightarrow>
                        (let s2 = s1\<lparr>fuel_consumption := Some fuel\<rparr>
                         in
                        (case map_value pot_value 0 4095 240 120 of
                           Inl e \<Rightarrow> (Inl e, s2)
                         | Inr new_rudder_angle \<Rightarrow>
                        (case map_value pot_value2 0 4095 0 6000 of
                           Inl e \<Rightarrow> (Inl e, s2)
                         | Inr new_engine_rpm \<Rightarrow>
                        (let alpha = 3 / 10;
                             s3 = (if smoothed_engine_rpm s2 = 0
                                   then s2\<lparr>smoothed_engine_rpm := new_engine_rpm\<rparr>
                                   else s2\<lparr>smoothed_engine_rpm :=
                                          alpha * new_engine_rpm
                                          + (1 - alpha) * smoothed_engine_rpm s2\<rparr>);
                             s4 = (if smoothed_rudder_angle s3 = 0
                                   then s3\<lparr>smoothed_rudder_angle := new_rudder_angle\<rparr>
                                   else s3\<lparr>smoothed_rudder_angle :=
                                          alpha * new_rudder_angle
                                          + (1 - alpha) * smoothed_rudder_angle s3\<rparr>);
                             s5 = s4\<lparr>rudder_angle := smoothed_rudder_angle s4\<rparr>;
                             s6 = s5\<lparr>engine_rpm := smoothed_engine_rpm s5\<rparr>
                         in (Inr (), s6\<lparr>last_good_frame_time := now\<rparr>)))))))))))))"

text \<open>
  The whole function: nothing happens without a handle; an exception of the body is
  handled by \<open>close_serial()\<close>, on the state the body left. The result is \<open>Inl e\<close> when
  an exception leaves the function, and otherwise the handles on which \<open>close()\<close> was
  called together with the new state.
\<close>

definition process_serial_data ::
  "(string \<Rightarrow> error + int) \<Rightarrow> (string \<Rightarrow> error + pyfloat) \<Rightarrow>
   error + string \<Rightarrow> error + unit \<Rightarrow> rat \<Rightarrow> state \<Rightarrow> error + serial list \<times> state" where
  "process_serial_data py_int py_float read_r close_r now s =
     (if ser s = None then Inr ([], s)
      else
        (case process_frame py_int py_float read_r now s of
           (Inl e, s1) \<Rightarrow> close_serial close_r s1
         | (Inr u, s1) \<Rightarrow> Inr ([], s1)))"

subsection \<open>What the two boxes show\<close>

text \<open>
  Lines 343 and 356 to 357 of \<open>draw_fuel_and_shift_boxes\<close>. \<open>fmt\<close> stands for
  Python's formatting of a float with one decimal, \<open>f"{x:.1f}"\<close>.
\<close>

definition fuel_str :: "(pyfloat \<Rightarrow> string) \<Rightarrow> state \<Rightarrow> string" where
  "fuel_str fmt s =
     (case fuel_consumption s of
        Some x \<Rightarrow> fmt x
      | None \<Rightarrow> ''-'')"

definition gear_lookup :: "int \<rightharpoonup> string" where
  "gear_lookup = [1 \<mapsto> ''R'', 2 \<mapsto> ''N'', 3 \<mapsto> ''F'']"

definition gear_letter :: "state \<Rightarrow> string" where
  "gear_letter s =
     (case shift_indicator s of
        None \<Rightarrow> ''-''
      | Some g \<Rightarrow> (case gear_lookup g of Some l \<Rightarrow> l | None \<Rightarrow> ''-''))"

subsection \<open>The main loop\<close>

text \<open>
  What the world answers during one iteration of the loop: three clock readings
  (lines 68, 154 and 379) and the behaviour of the four serial calls.
\<close>

record tick_input =
  t_open :: rat
  serial_open :: "error + serial"
  serial_reset :: "error + unit"
  serial_readline :: "error + string"
  serial_close :: "error + unit"
  t_frame :: rat
  t_check :: rat

text \<open>Lines 379 to 381.\<close>

definition staleness_check :: "rat \<Rightarrow> state \<Rightarrow> state" where
  "staleness_check now s =
     (if now - last_good_frame_time s > DATA_STALE_SECONDS then set_no_data_state s else s)"

text \<open>
  Lines 375 to 381 of one iteration. An exception leaving \<open>process_serial_data\<close> would
  leave the loop. The Boolean is the one of \<open>try_open_serial\<close>; the handles closed are
  not passed on.
\<close>

definition tick ::
  "(string \<Rightarrow> error + int) \<Rightarrow> (string \<Rightarrow> error + pyfloat) \<Rightarrow>
   tick_input \<Rightarrow> state \<Rightarrow> error + bool \<times> state" where
  "tick py_int py_float e s =
     (case try_open_serial (t_open e) (serial_open e) (serial_reset e) s of
        (attempted, s1) \<Rightarrow>
          (case process_serial_data py_int py_float (serial_readline e) (serial_close e) (t_frame e) s1 of
             Inl err \<Rightarrow> Inl err
           | Inr (calls, s2) \<Rightarrow> Inr (attempted, staleness_check (t_check e) s2)))"

text \<open>
  The loop over the iterations it runs before it is told to stop, from the state \<open>s\<close>.
  The list returned holds the clock readings at which \<open>serial.Serial(...)\<close> was called,
  in the order of the calls.
\<close>

fun main_loop ::
  "(string \<Rightarrow> error + int) \<Rightarrow> (string \<Rightarrow> error + pyfloat) \<Rightarrow>
   tick_input list \<Rightarrow> state \<Rightarrow> error + rat list \<times> state" where
  "main_loop py_int py_float [] s = Inr ([], s)"
| "main_loop py_int py_float (e # es) s =
     (case tick py_int py_float e s of
        Inl err \<Rightarrow> Inl err
      | Inr (attempted, s1) \<Rightarrow>
          (case main_loop py_int py_float es s1 of
             Inl err \<Rightarrow> Inl err
           | Inr (opens, s2) \<Rightarrow> Inr ((if attempted then [t_open e] else []) @ opens, s2)))"

text \<open>Lines 363 and 364: the state in which the loop starts, \<open>t0\<close> the clock reading.\<close>

definition boot :: "rat \<Rightarrow> state" where
  "boot t0 = (set_no_data_state module_state)\<lparr>last_good_frame_time := t0\<rparr>"

subsection \<open>Plain decimal literals\<close>

text \<open>
  Two parsers for the concrete examples: an optional sign and decimal digits, and for
  the float one optional fraction after a point. On such texts they return what
  \<open>int(...)\<close> and \<open>float(...)\<close> return, and on texts without any digit they raise
  \<open>ValueError\<close> as Python does. (Python accepts more: surrounding white space,
  underscores between digits, exponents, \<open>inf\<close> and \<open>nan\<close>; the general theorems hold
  for every parser.)
\<close>

definition is_digit :: "char \<Rightarrow> bool" where
  "is_digit c = (let n = (of_char c :: nat) in 48 \<le> n \<and> n \<le> 57)"

definition digits_value :: "string \<Rightarrow> nat" where
  "digits_value ds = foldl (\<lambda>a c. 10 * a + (of_char c - 48)) 0 ds"

definition unsigned_literal :: "string \<Rightarrow> error + int" where
  "unsigned_literal ds =
     (if ds \<noteq> [] \<and> list_all is_digit ds then Inr (int (digits_value ds)) else Inl ValueError)"

definition int_literal :: "string \<Rightarrow> error + int" where
  "int_literal txt =
     (case txt of
        [] \<Rightarrow> Inl ValueError
      | c # cs \<Rightarrow>
          if c = CHR ''-'' then map_sum id uminus (unsigned_literal cs)
          else if c = CHR ''+'' then unsigned_literal cs
          else unsigned_literal txt)"

definition unsigned_decimal :: "string \<Rightarrow> error + rat" where
  "unsigned_decimal txt =
     (let ip = takeWhile (\<lambda>c. c \<noteq> CHR ''.'') txt;
          rest = dropWhile (\<lambda>c. c \<noteq> CHR ''.'') txt
      in case rest of
           [] \<Rightarrow> map_sum id of_int (unsigned_literal ip)
         | dot # fp \<Rightarrow>
             (case (unsigned_literal ip, unsigned_literal fp) of
                (Inr i, Inr f) \<Rightarrow> Inr (of_int i + of_int f / 10 ^ length fp)
              | _ \<Rightarrow> Inl ValueError))"

definition float_literal :: "string \<Rightarrow> error + pyfloat" where
  "float_literal txt =
     (case txt of
        [] \<Rightarrow> Inl ValueError
      | c # cs \<Rightarrow>
          if c = CHR ''-'' then map_sum id (\<lambda>q. Finite (- q)) (unsigned_decimal cs)
          else if c = CHR ''+'' then map_sum id Finite (unsigned_decimal cs)
          else map_sum id Finite (unsigned_decimal txt))"

subsection \<open>Notions used in the statements\<close>

text \<open>
  A list of clock readings in which every reading is at least \<open>SERIAL_RETRY_SECONDS\<close>
  after each reading before it.
\<close>

fun spaced :: "rat list \<Rightarrow> bool" where
  "spaced [] = True"
| "spaced (t # ts) = (list_all (\<lambda>u. SERIAL_RETRY_SECONDS \<le> u - t) ts \<and> spaced ts)"

text \<open>
  What an accepted line is said to do to the state, for the four parsed values: the gear
  code and the fuel rate are stored as they are; the two raw values are mapped by the
  two linear functions, whatever their range, and blended into the smoothed values
  (taken over unblended when the smoothed value is zero); the displayed values follow
  the smoothed ones and the time of the last good frame becomes \<open>now\<close>.
\<close>

definition blend :: "rat \<Rightarrow> rat \<Rightarrow> rat" where
  "blend new old = (if old = 0 then new else 3 / 10 * new + 7 / 10 * old)"

definition accepted :: "int \<Rightarrow> int \<Rightarrow> int \<Rightarrow> pyfloat \<Rightarrow> rat \<Rightarrow> state \<Rightarrow> state" where
  "accepted p p2 g f now s =
     s\<lparr>shift_indicator := Some g, fuel_consumption := Some f,
       smoothed_engine_rpm := blend (6000 * of_int p2 / 4095) (smoothed_engine_rpm s),
       smoothed_rudder_angle := blend (240 - 120 * of_int p / 4095) (smoothed_rudder_angle s),
       rudder_angle := blend (240 - 120 * of_int p / 4095) (smoothed_rudder_angle s),
       engine_rpm := blend (6000 * of_int p2 / 4095) (smoothed_engine_rpm s),
       last_good_frame_time := now\<rparr>"

text \<open>
  The first four fields of a line all parse: the condition under which the line is said
  to be accepted.
\<close>

definition parses ::
  "(string \<Rightarrow> error + int) \<Rightarrow> (string \<Rightarrow> error + pyfloat) \<Rightarrow> string \<Rightarrow> bool" where
  "parses py_int py_float raw =
     (let values = split_comma (strip raw)
      in 4 \<le> length values \<and> \<not> isl (py_int (values ! 0))
         \<and> \<not> isl (py_int (values ! 1)) \<and> \<not> isl (py_int (values ! 2))
         \<and> \<not> isl (py_float (values ! 3)))"

text \<open>
  The two raw values are small enough for the divisions of lines 136 and 137, and the
  same for the first two fields of a line.
\<close>

definition in_float_range :: "int \<Rightarrow> int \<Rightarrow> bool" where
  "in_float_range p p2 =
     (\<not> float_overflow (of_int (p * (120 - 240)) / 4095)
      \<and> \<not> float_overflow (of_int (p2 * (6000 - 0)) / 4095))"

definition raws_in_float_range :: "(string \<Rightarrow> error + int) \<Rightarrow> string \<Rightarrow> bool" where
  "raws_in_float_range py_int raw =
     (let values = split_comma (strip raw)
      in case (py_int (values ! 0), py_int (values ! 1)) of
           (Inr p, Inr p2) \<Rightarrow> in_float_range p p2
         | _ \<Rightarrow> False)"

text \<open>What \<open>readline()\<close> returns for a complete line: the text and the newline.\<close>

definition line :: "string \<Rightarrow> string" where
  "line txt = txt @ [CHR 0x0A]"

text \<open>
  The integer \<open>10 ^ 310\<close>, and a line whose first field is its decimal numeral: a one
  and 310 zeros.
\<close>

definition big_raw :: int where
  "big_raw = 10 ^ 310"

definition big_line :: string where
  "big_line = line (CHR ''1'' # replicate 310 (CHR ''0'') @ '',0,2,1.5'')"

text \<open>
  States for the concrete examples: the state in which the loop starts at clock reading
  10, with the port open; and a state showing live values.
\<close>

definition connected_boot :: state where
  "connected_boot = (boot 10)\<lparr>ser := Some (Serial SERIAL_PORT SERIAL_BAUD)\<rparr>"

definition live_state :: state where
  "live_state =
     \<lparr>ser = Some (Serial SERIAL_PORT SERIAL_BAUD), last_serial_try_time = 3,
      last_good_frame_time = 5, rudder_angle = 200, engine_rpm = 1000,
      smoothed_engine_rpm = 1000, smoothed_rudder_angle = 200,
      shift_indicator = Some 3, fuel_consumption = Some (Finite 2)\<rparr>"

text \<open>
  Inputs of loop iterations for the concrete examples: an iteration at clock reading 6
  (staleness checked a tenth of a second later) in which the port cannot be opened and
  nothing is read; an iteration in which all three clock readings are \<open>t\<close>; and a run
  of six iterations.
\<close>

definition quiet_tick :: tick_input where
  "quiet_tick = \<lparr>t_open = 6, serial_open = Inl SerialException, serial_reset = Inr (),
     serial_readline = Inr [], serial_close = Inr (), t_frame = 6, t_check = 61 / 10\<rparr>"

definition tick_at :: "rat \<Rightarrow> error + serial \<Rightarrow> error + string \<Rightarrow> tick_input" where
  "tick_at t opn rd =
     \<lparr>t_open = t, serial_open = opn, serial_reset = Inr (), serial_readline = rd,
      serial_close = Inr (), t_frame = t, t_check = t\<rparr>"

definition example_run :: "tick_input list" where
  "example_run =
     [tick_at 10 (Inl SerialException) (Inr []),
      tick_at 11 (Inr (Serial SERIAL_PORT SERIAL_BAUD)) (Inr []),
      tick_at 12 (Inr (Serial SERIAL_PORT SERIAL_BAUD)) (Inr (line ''0,0,2,1.5'')),
      tick_at 13 (Inr (Serial SERIAL_PORT SERIAL_BAUD)) (Inl SerialException),
      tick_at (27 / 2) (Inr (Serial SERIAL_PORT SERIAL_BAUD)) (Inr []),
      tick_at 14 (Inl SerialException) (Inr [])]"

section \<open>Properties\<close>

subsection \<open>Auxiliary facts\<close>

lemma set_no_data_state_eq:
  "set_no_data_state s =
     s\<lparr>smoothed_rudder_angle := 180, smoothed_engine_rpm := 3000, rudder_angle := 180,
       engine_rpm := 3000, shift_indicator := None, fuel_consumption := None\<rparr>"
  by (simp add: set_no_data_state_def Let_def)

lemma strip_Nil: "strip [] = []"
  by (simp add: strip_def)

lemma four_fields_nonempty:
  assumes "4 \<le> length (split_comma (strip raw))"
  shows "raw \<noteq> [] \<and> strip raw \<noteq> []"
proof -
  have "strip raw \<noteq> []" using assms by (cases "strip raw") auto
  then show ?thesis by (auto simp: strip_Nil)
qed

lemma strip_line:
  assumes "txt \<noteq> []" and "\<not> is_space (hd txt)" and "\<not> is_space (last txt)"
  shows "strip (line txt) = txt"
proof -
  have nl: "is_space (CHR 0x0A)" by (simp add: is_space_def)
  from assms(1) assms(2) have a: "dropWhile is_space (txt @ [CHR 0x0A]) = txt @ [CHR 0x0A]"
    by (cases "txt") simp_all
  from assms(1) assms(3) have b: "dropWhile is_space (rev txt) = rev txt"
    by (cases "txt" rule: rev_cases) simp_all
  show ?thesis by (simp add: strip_def line_def a nl b)
qed

lemma split_comma_field:
  assumes "CHR '','' \<notin> set ds"
  shows "split_comma (ds @ CHR '','' # rest) = ds # split_comma rest"
  using assms by (induction ds) auto

text \<open>
  The two calls of \<open>map_value\<close>, and raw values that cannot overflow.
\<close>

lemma map_value_trim:
  "map_value p 0 4095 240 120 =
     (if float_overflow (of_int (p * (120 - 240)) / 4095) then Inl OverflowError
      else Inr (240 - 120 * of_int p / 4095))"
  by (simp add: map_value_def Let_def)

lemma map_value_rpm:
  "map_value p2 0 4095 0 6000 =
     (if float_overflow (of_int (p2 * (6000 - 0)) / 4095) then Inl OverflowError
      else Inr (6000 * of_int p2 / 4095))"
  by (simp add: map_value_def Let_def)

lemma small_no_overflow:
  assumes "\<bar>q\<bar> \<le> 6000"
  shows "\<not> float_overflow q"
proof -
  have "(6000 :: rat) < 2 ^ 1024 - 2 ^ 970" by simp
  with assms show ?thesis by (simp add: float_overflow_def)
qed

lemma raw_range_in_float_range:
  assumes "0 \<le> p" "p \<le> 4095" "0 \<le> p2" "p2 \<le> 4095"
  shows "in_float_range p p2"
proof -
  have a: "\<bar>of_int (p * (120 - 240)) / 4095 :: rat\<bar> \<le> 6000"
  proof -
    have "\<bar>of_int (p * (120 - 240)) / 4095 :: rat\<bar> = 120 * of_int p / 4095"
      using assms(1) by (simp add: abs_mult)
    also have "\<dots> \<le> 120 * 4095 / 4095"
      using assms(2) by (simp add: divide_right_mono)
    finally show ?thesis by simp
  qed
  have b: "\<bar>of_int (p2 * (6000 - 0)) / 4095 :: rat\<bar> \<le> 6000"
  proof -
    have "\<bar>of_int (p2 * (6000 - 0)) / 4095 :: rat\<bar> = 6000 * of_int p2 / 4095"
      using assms(3) by (simp add: abs_mult)
    also have "\<dots> \<le> 6000 * 4095 / 4095"
      using assms(4) by (simp add: divide_right_mono)
    finally show ?thesis by simp
  qed
  from small_no_overflow [OF a] small_no_overflow [OF b] show ?thesis
    by (simp add: in_float_range_def)
qed

lemma zero_in_float_range: "in_float_range 0 0"
  by (simp add: in_float_range_def float_overflow_def)

lemma raws_in_float_range_values:
  assumes "py_int (split_comma (strip raw) ! 0) = Inr p"
    and "py_int (split_comma (strip raw) ! 1) = Inr p2"
  shows "raws_in_float_range py_int raw = in_float_range p p2"
  using assms by (simp add: raws_in_float_range_def Let_def)

text \<open>
  How the body of the \<open>try\<close> block ends, by the first place at which it stops: the
  read raises; the line has fewer than four fields; a field fails to parse; a division
  overflows; or nothing fails.
\<close>

lemma process_frame_read_error:
  "process_frame py_int py_float (Inl e) now s = (Inl e, s)"
  by (simp add: process_frame_def)

lemma process_frame_short:
  assumes "length (split_comma (strip raw)) < 4"
  shows "process_frame py_int py_float (Inr raw) now s = (Inr (), s)"
  using assms by (simp add: process_frame_def Let_def)

lemma process_frame_fail0:
  assumes "4 \<le> length (split_comma (strip raw))"
    and "py_int (split_comma (strip raw) ! 0) = Inl e"
  shows "process_frame py_int py_float (Inr raw) now s = (Inl e, s)"
  using assms four_fields_nonempty [OF assms(1)]
  by (simp add: process_frame_def Let_def)

lemma process_frame_fail1:
  assumes "4 \<le> length (split_comma (strip raw))"
    and "py_int (split_comma (strip raw) ! 0) = Inr p"
    and "py_int (split_comma (strip raw) ! 1) = Inl e"
  shows "process_frame py_int py_float (Inr raw) now s = (Inl e, s)"
  using assms four_fields_nonempty [OF assms(1)]
  by (simp add: process_frame_def Let_def)

lemma process_frame_fail2:
  assumes "4 \<le> length (split_comma (strip raw))"
    and "py_int (split_comma (strip raw) ! 0) = Inr p"
    and "py_int (split_comma (strip raw) ! 1) = Inr p2"
    and "py_int (split_comma (strip raw) ! 2) = Inl e"
  shows "process_frame py_int py_float (Inr raw) now s = (Inl e, s)"
  using assms four_fields_nonempty [OF assms(1)]
  by (simp add: process_frame_def Let_def)

lemma process_frame_fail3:
  assumes "4 \<le> length (split_comma (strip raw))"
    and "py_int (split_comma (strip raw) ! 0) = Inr p"
    and "py_int (split_comma (strip raw) ! 1) = Inr p2"
    and "py_int (split_comma (strip raw) ! 2) = Inr g"
    and "py_float (split_comma (strip raw) ! 3) = Inl e"
  shows "process_frame py_int py_float (Inr raw) now s = (Inl e, s\<lparr>shift_indicator := Some g\<rparr>)"
  using assms four_fields_nonempty [OF assms(1)]
  by (simp add: process_frame_def Let_def)

lemma process_frame_overflow:
  assumes "4 \<le> length (split_comma (strip raw))"
    and "py_int (split_comma (strip raw) ! 0) = Inr p"
    and "py_int (split_comma (strip raw) ! 1) = Inr p2"
    and "py_int (split_comma (strip raw) ! 2) = Inr g"
    and "py_float (split_comma (strip raw) ! 3) = Inr f"
    and "\<not> in_float_range p p2"
  shows "process_frame py_int py_float (Inr raw) now s =
    (Inl OverflowError, s\<lparr>shift_indicator := Some g, fuel_consumption := Some f\<rparr>)"
  using assms four_fields_nonempty [OF assms(1)]
  by (auto simp: process_frame_def Let_def map_value_trim map_value_rpm in_float_range_def)

lemma process_frame_ok:
  assumes "4 \<le> length (split_comma (strip raw))"
    and "py_int (split_comma (strip raw) ! 0) = Inr p"
    and "py_int (split_comma (strip raw) ! 1) = Inr p2"
    and "py_int (split_comma (strip raw) ! 2) = Inr g"
    and "py_float (split_comma (strip raw) ! 3) = Inr f"
    and "in_float_range p p2"
  shows "process_frame py_int py_float (Inr raw) now s =
    (Inr (), s\<lparr>shift_indicator := Some g, fuel_consumption := Some f,
       smoothed_engine_rpm :=
         (if smoothed_engine_rpm s = 0 then 6000 * of_int p2 / 4095
          else 3 / 10 * (6000 * of_int p2 / 4095) + 7 / 10 * smoothed_engine_rpm s),
       smoothed_rudder_angle :=
         (if smoothed_rudder_angle s = 0 then 240 - 120 * of_int p / 4095
          else 3 / 10 * (240 - 120 * of_int p / 4095) + 7 / 10 * smoothed_rudder_angle s),
       rudder_angle :=
         (if smoothed_rudder_angle s = 0 then 240 - 120 * of_int p / 4095
          else 3 / 10 * (240 - 120 * of_int p / 4095) + 7 / 10 * smoothed_rudder_angle s),
       engine_rpm :=
         (if smoothed_engine_rpm s = 0 then 6000 * of_int p2 / 4095
          else 3 / 10 * (6000 * of_int p2 / 4095) + 7 / 10 * smoothed_engine_rpm s),
       last_good_frame_time := now\<rparr>)"
  using assms four_fields_nonempty [OF assms(1)]
  by (simp add: process_frame_def Let_def map_value_trim map_value_rpm in_float_range_def)

lemma process_frame_keeps:
  assumes "process_frame py_int py_float rd now s = (r, s1)"
  shows "ser s1 = ser s \<and> last_serial_try_time s1 = last_serial_try_time s"
  using assms
  by (auto simp: process_frame_def Let_def map_value_trim map_value_rpm
           split: sum.splits if_splits)

lemma process_frame_accepted:
  assumes "4 \<le> length (split_comma (strip raw))"
    and "py_int (split_comma (strip raw) ! 0) = Inr p"
    and "py_int (split_comma (strip raw) ! 1) = Inr p2"
    and "py_int (split_comma (strip raw) ! 2) = Inr g"
    and "py_float (split_comma (strip raw) ! 3) = Inr f"
    and "in_float_range p p2"
  shows "process_frame py_int py_float (Inr raw) now s = (Inr (), accepted p p2 g f now s)"
  by (simp add: process_frame_ok [where py_int = py_int and py_float = py_float, OF assms]
      accepted_def blend_def)

lemma not_parses_cases:
  assumes "4 \<le> length (split_comma (strip raw))" and "\<not> parses py_int py_float raw"
  obtains e where "py_int (split_comma (strip raw) ! 0) = Inl e"
  | p e where "py_int (split_comma (strip raw) ! 0) = Inr p"
      and "py_int (split_comma (strip raw) ! 1) = Inl e"
  | p p2 e where "py_int (split_comma (strip raw) ! 0) = Inr p"
      and "py_int (split_comma (strip raw) ! 1) = Inr p2"
      and "py_int (split_comma (strip raw) ! 2) = Inl e"
  | p p2 g e where "py_int (split_comma (strip raw) ! 0) = Inr p"
      and "py_int (split_comma (strip raw) ! 1) = Inr p2"
      and "py_int (split_comma (strip raw) ! 2) = Inr g"
      and "py_float (split_comma (strip raw) ! 3) = Inl e"
proof -
  let ?v = "split_comma (strip raw)"
  show thesis
  proof (cases "py_int (?v ! 0)")
    case (Inl e) then show ?thesis using that(1) by blast
  next
    case a: (Inr p)
    show ?thesis
    proof (cases "py_int (?v ! 1)")
      case (Inl e) then show ?thesis using a that(2) by blast
    next
      case b: (Inr p2)
      show ?thesis
      proof (cases "py_int (?v ! 2)")
        case (Inl e) then show ?thesis using a b that(3) by blast
      next
        case c: (Inr g)
        show ?thesis
        proof (cases "py_float (?v ! 3)")
          case (Inl e) then show ?thesis using a b c that(4) by blast
        next
          case (Inr f)
          with a b c assms have False by (simp add: parses_def Let_def)
          then show ?thesis ..
        qed
      qed
    qed
  qed
qed

lemma failed_parse_frame:
  assumes "4 \<le> length (split_comma (strip raw))" and "\<not> parses py_int py_float raw"
  shows "\<exists>e. process_frame py_int py_float (Inr raw) now s = (Inl e, s)
           \<or> (\<exists>g. process_frame py_int py_float (Inr raw) now s
                    = (Inl e, s\<lparr>shift_indicator := Some g\<rparr>))"
  using assms(1) assms(2)
proof (cases rule: not_parses_cases)
  case (1 e)
  from process_frame_fail0 [where py_int = py_int and py_float = py_float and raw = raw, OF assms(1) 1]
  show ?thesis by blast
next
  case (2 p e)
  from process_frame_fail1 [where py_int = py_int and py_float = py_float and raw = raw, OF assms(1) 2]
  show ?thesis by blast
next
  case (3 p p2 e)
  from process_frame_fail2 [where py_int = py_int and py_float = py_float and raw = raw, OF assms(1) 3]
  show ?thesis by blast
next
  case (4 p p2 g e)
  from process_frame_fail3 [where py_int = py_int and py_float = py_float and raw = raw, OF assms(1) 4]
  show ?thesis by blast
qed

lemma parses_values:
  assumes "parses py_int py_float raw"
  shows "\<exists>p p2 g f. py_int (split_comma (strip raw) ! 0) = Inr p
           \<and> py_int (split_comma (strip raw) ! 1) = Inr p2
           \<and> py_int (split_comma (strip raw) ! 2) = Inr g
           \<and> py_float (split_comma (strip raw) ! 3) = Inr f"
proof -
  let ?v = "split_comma (strip raw)"
  from assms have "\<not> isl (py_int (?v ! 0))" "\<not> isl (py_int (?v ! 1))"
    "\<not> isl (py_int (?v ! 2))" "\<not> isl (py_float (?v ! 3))"
    by (simp_all add: parses_def Let_def)
  then show ?thesis
    by (cases "py_int (?v ! 0)"; cases "py_int (?v ! 1)"; cases "py_int (?v ! 2)";
        cases "py_float (?v ! 3)") simp_all
qed

text \<open>
  \<open>close_serial\<close> and \<open>process_serial_data\<close> always return: no exception leaves them.
  When the body raises on an open port, \<open>close()\<close> is called on its handle.
\<close>

lemma close_serial_eq:
  "close_serial close_r s =
     Inr ((case ser s of Some h \<Rightarrow> [h] | None \<Rightarrow> []), s\<lparr>ser := None\<rparr>)"
  by (simp add: close_serial_def split: option.split sum.split)

lemma process_serial_data_returns:
  "\<exists>cs s'. process_serial_data py_int py_float rd cl now s = Inr (cs, s')"
  by (simp add: process_serial_data_def close_serial_eq split: prod.split sum.split)

lemma process_serial_data_raised:
  assumes "ser s = Some h" and "process_frame py_int py_float rd now s = (Inl e, s1)"
  shows "process_serial_data py_int py_float rd cl now s = Inr ([h], s1\<lparr>ser := None\<rparr>)"
proof -
  from process_frame_keeps [OF assms(2)] assms(1) have "ser s1 = Some h" by simp
  with assms show ?thesis by (simp add: process_serial_data_def close_serial_eq)
qed

lemma process_serial_data_try_time:
  assumes "process_serial_data py_int py_float rd cl now s = Inr (cs, s')"
  shows "last_serial_try_time s' = last_serial_try_time s"
proof (cases "ser s = None")
  case True
  with assms show ?thesis by (simp add: process_serial_data_def)
next
  case False
  obtain r s1 where pf: "process_frame py_int py_float rd now s = (r, s1)"
    by (cases "process_frame py_int py_float rd now s")
  from process_frame_keeps [OF pf] have k: "last_serial_try_time s1 = last_serial_try_time s"
    by simp
  from assms False pf k show ?thesis
    by (cases r) (auto simp: process_serial_data_def close_serial_eq)
qed

lemma process_serial_data_accepted:
  assumes "ser s = Some h"
    and "4 \<le> length (split_comma (strip raw))"
    and "py_int (split_comma (strip raw) ! 0) = Inr p"
    and "py_int (split_comma (strip raw) ! 1) = Inr p2"
    and "py_int (split_comma (strip raw) ! 2) = Inr g"
    and "py_float (split_comma (strip raw) ! 3) = Inr f"
    and "in_float_range p p2"
  shows "process_serial_data py_int py_float (Inr raw) cl now s
           = Inr ([], accepted p p2 g f now s)"
  using assms(1)
    process_frame_accepted [where py_int = py_int and py_float = py_float, OF assms(2-7)]
  by (simp add: process_serial_data_def)

lemma process_serial_data_overflow:
  assumes "ser s = Some h"
    and "4 \<le> length (split_comma (strip raw))"
    and "py_int (split_comma (strip raw) ! 0) = Inr p"
    and "py_int (split_comma (strip raw) ! 1) = Inr p2"
    and "py_int (split_comma (strip raw) ! 2) = Inr g"
    and "py_float (split_comma (strip raw) ! 3) = Inr f"
    and "\<not> in_float_range p p2"
  shows "process_serial_data py_int py_float (Inr raw) cl now s
           = Inr ([h], s\<lparr>shift_indicator := Some g, fuel_consumption := Some f, ser := None\<rparr>)"
  using process_serial_data_raised
    [OF assms(1) process_frame_overflow
          [where py_int = py_int and py_float = py_float, OF assms(2-7)]]
  by simp

lemma rejected_line:
  assumes "ser s = Some h"
    and "\<not> (parses py_int py_float raw \<and> raws_in_float_range py_int raw)"
  shows "\<exists>cs s'. process_serial_data py_int py_float (Inr raw) cl now s = Inr (cs, s')
           \<and> last_good_frame_time s' = last_good_frame_time s
           \<and> rudder_angle s' = rudder_angle s \<and> engine_rpm s' = engine_rpm s
           \<and> smoothed_rudder_angle s' = smoothed_rudder_angle s
           \<and> smoothed_engine_rpm s' = smoothed_engine_rpm s"
proof (cases "4 \<le> length (split_comma (strip raw))")
  case False
  then have "length (split_comma (strip raw)) < 4" by simp
  from process_frame_short [OF this, of py_int py_float now s] assms(1)
  show ?thesis by (simp add: process_serial_data_def)
next
  case len: True
  show ?thesis
  proof (cases "parses py_int py_float raw")
    case False
    from failed_parse_frame [where py_int = py_int and py_float = py_float, OF len False,
           of now s]
    obtain e where
      "process_frame py_int py_float (Inr raw) now s = (Inl e, s)
        \<or> (\<exists>g. process_frame py_int py_float (Inr raw) now s
                 = (Inl e, s\<lparr>shift_indicator := Some g\<rparr>))"
      by blast
    then show ?thesis
    proof
      assume f: "process_frame py_int py_float (Inr raw) now s = (Inl e, s)"
      from process_serial_data_raised [OF assms(1) f, of cl] show ?thesis by simp
    next
      assume "\<exists>g. process_frame py_int py_float (Inr raw) now s
                   = (Inl e, s\<lparr>shift_indicator := Some g\<rparr>)"
      then obtain g where f: "process_frame py_int py_float (Inr raw) now s
                   = (Inl e, s\<lparr>shift_indicator := Some g\<rparr>)" by blast
      from process_serial_data_raised [OF assms(1) f, of cl] show ?thesis by simp
    qed
  next
    case True
    from parses_values [OF True] obtain p p2 g f where
      v: "py_int (split_comma (strip raw) ! 0) = Inr p"
         "py_int (split_comma (strip raw) ! 1) = Inr p2"
         "py_int (split_comma (strip raw) ! 2) = Inr g"
         "py_float (split_comma (strip raw) ! 3) = Inr f"
      by blast
    from assms(2) True raws_in_float_range_values [OF v(1) v(2)]
    have "\<not> in_float_range p p2" by simp
    from process_serial_data_overflow
           [where py_int = py_int and py_float = py_float and cl = cl and now = now,
            OF assms(1) len v this]
    show ?thesis by simp
  qed
qed

text \<open>
  The open attempt and the loop.
\<close>

lemma try_open_serial_cases:
  "try_open_serial now o_r r_r s = (a, s1) \<Longrightarrow>
     (if a then ser s = None \<and> SERIAL_RETRY_SECONDS \<le> now - last_serial_try_time s
                \<and> last_serial_try_time s1 = now
      else s1 = s)"
  by (auto simp: try_open_serial_def Let_def split: if_splits sum.splits)

lemma try_open_serial_connected:
  "ser s \<noteq> None \<Longrightarrow> try_open_serial now o_r r_r s = (False, s)"
  by (simp add: try_open_serial_def)

lemma try_open_serial_cooldown:
  "now - last_serial_try_time s < SERIAL_RETRY_SECONDS \<Longrightarrow>
     try_open_serial now o_r r_r s = (False, s)"
  by (simp add: try_open_serial_def)

lemma try_open_serial_attempt:
  assumes "fst (try_open_serial now o_r r_r s)"
  shows "last_serial_try_time (snd (try_open_serial now o_r r_r s)) = now"
  using assms by (auto simp: try_open_serial_def Let_def split: if_splits sum.splits)

lemma try_open_serial_disconnected:
  assumes "ser s = None"
  shows "fst (try_open_serial t q r s) = (\<not> t - last_serial_try_time s < SERIAL_RETRY_SECONDS)"
    and "ser (snd (try_open_serial t q r s)) =
           (if t - last_serial_try_time s < SERIAL_RETRY_SECONDS then None
            else case q of Inl e \<Rightarrow> None
                 | Inr h \<Rightarrow> (case r of Inl e \<Rightarrow> None | Inr u \<Rightarrow> Some h))"
    and "last_serial_try_time (snd (try_open_serial t q r s)) =
           (if t - last_serial_try_time s < SERIAL_RETRY_SECONDS then last_serial_try_time s
            else t)"
  using assms by (auto simp: try_open_serial_def Let_def split: sum.splits)

lemma staleness_check_try_time:
  "last_serial_try_time (staleness_check now s) = last_serial_try_time s"
  by (simp add: staleness_check_def set_no_data_state_eq)

lemma staleness_check_stale:
  assumes "DATA_STALE_SECONDS < now - last_good_frame_time s"
  shows "staleness_check now s = set_no_data_state s"
  using assms by (simp add: staleness_check_def)

lemma staleness_check_good_time:
  "last_good_frame_time (staleness_check now s) = last_good_frame_time s"
  by (simp add: staleness_check_def set_no_data_state_eq)

lemma tick_returns:
  "\<exists>a s'. tick py_int py_float e s = Inr (a, s')"
proof -
  obtain a s1 where t: "try_open_serial (t_open e) (serial_open e) (serial_reset e) s = (a, s1)"
    by (cases "try_open_serial (t_open e) (serial_open e) (serial_reset e) s")
  obtain cs s2 where p: "process_serial_data py_int py_float (serial_readline e) (serial_close e) (t_frame e) s1 = Inr (cs, s2)"
    using process_serial_data_returns by blast
  show ?thesis by (simp add: tick_def t p)
qed

lemma tick_try_time:
  assumes "tick py_int py_float e s = Inr (a, s')"
  shows "if a then SERIAL_RETRY_SECONDS \<le> t_open e - last_serial_try_time s
                   \<and> last_serial_try_time s' = t_open e
         else last_serial_try_time s' = last_serial_try_time s"
proof -
  obtain b s1 where t: "try_open_serial (t_open e) (serial_open e) (serial_reset e) s = (b, s1)"
    by (cases "try_open_serial (t_open e) (serial_open e) (serial_reset e) s")
  obtain cs s2 where p: "process_serial_data py_int py_float (serial_readline e) (serial_close e) (t_frame e) s1 = Inr (cs, s2)"
    using process_serial_data_returns by blast
  from assms t p have ab: "a = b" and s': "s' = staleness_check (t_check e) s2"
    by (simp_all add: tick_def)
  have "last_serial_try_time s' = last_serial_try_time s1"
    using process_serial_data_try_time [OF p] by (simp add: s' staleness_check_try_time)
  with try_open_serial_cases [OF t] ab show ?thesis
    by (auto split: if_splits)
qed

lemma list_all_shift:
  assumes "list_all (\<lambda>u. SERIAL_RETRY_SECONDS \<le> u - t) ts" and "SERIAL_RETRY_SECONDS \<le> t - t0"
  shows "list_all (\<lambda>u. SERIAL_RETRY_SECONDS \<le> u - t0) ts"
  using assms by (induction ts) (auto simp: SERIAL_RETRY_SECONDS_def)

lemma main_loop_spaced:
  "\<exists>opens s'. main_loop py_int py_float es s = Inr (opens, s') \<and> spaced opens
      \<and> list_all (\<lambda>u. SERIAL_RETRY_SECONDS \<le> u - last_serial_try_time s) opens"
proof (induction es arbitrary: s)
  case Nil
  show ?case by simp
next
  case (Cons e es)
  obtain a s1 where t: "tick py_int py_float e s = Inr (a, s1)"
    using tick_returns by blast
  from Cons.IH [of s1] obtain opens s2 where
    m: "main_loop py_int py_float es s1 = Inr (opens, s2)" and sp: "spaced opens"
    and la: "list_all (\<lambda>u. SERIAL_RETRY_SECONDS \<le> u - last_serial_try_time s1) opens"
    by blast
  show ?case
  proof (cases a)
    case True
    with tick_try_time [OF t] have g: "SERIAL_RETRY_SECONDS \<le> t_open e - last_serial_try_time s"
      and l: "last_serial_try_time s1 = t_open e" by simp_all
    from la l have la': "list_all (\<lambda>u. SERIAL_RETRY_SECONDS \<le> u - t_open e) opens" by simp
    from list_all_shift [OF la' g] la' sp g True t m show ?thesis by simp
  next
    case False
    with tick_try_time [OF t] have "last_serial_try_time s1 = last_serial_try_time s" by simp
    with la sp False t m show ?thesis by simp
  qed
qed

text \<open>
  The example lines, their fields and their values.
\<close>

lemmas literal_defs =
  int_literal_def float_literal_def unsigned_decimal_def unsigned_literal_def
  is_digit_def digits_value_def

lemma ex_fields1: "split_comma (strip (line ''0,0,2,1.5'')) = [''0'', ''0'', ''2'', ''1.5'']"
  by (simp add: line_def strip_def is_space_def)

lemma ex_fields2: "split_comma (strip (line ''0,0,3,x'')) = [''0'', ''0'', ''3'', ''x'']"
  by (simp add: line_def strip_def is_space_def)

lemma ex_fields3: "split_comma (strip (line ''x,0,0,0'')) = [''x'', ''0'', ''0'', ''0'']"
  by (simp add: line_def strip_def is_space_def)

lemma ex_fields5:
  "split_comma (strip (line ''5000,-10,7,2.5,junk'')) = [''5000'', ''-10'', ''7'', ''2.5'', ''junk'']"
  by (simp add: line_def strip_def is_space_def)

lemma ex_fields6: "split_comma (strip (line ''1,2,3'')) = [''1'', ''2'', ''3'']"
  by (simp add: line_def strip_def is_space_def)

lemma ex_fields7:
  "split_comma (strip (line ''4095,4095,1,0.5'')) = [''4095'', ''4095'', ''1'', ''0.5'']"
  by (simp add: line_def strip_def is_space_def)

lemma ex_parse5:
  "int_literal ''5000'' = Inr 5000" "int_literal ''-10'' = Inr (- 10)"
  "int_literal ''7'' = Inr 7" "float_literal ''2.5'' = Inr (Finite (5 / 2))"
  by (simp_all add: literal_defs)

lemma ex_parse7:
  "int_literal ''4095'' = Inr 4095" "int_literal ''1'' = Inr 1"
  "float_literal ''0.5'' = Inr (Finite (1 / 2))"
  by (simp_all add: literal_defs)

lemma ex_parse_big:
  "int_literal ''0'' = Inr 0" "int_literal ''2'' = Inr 2"
  "float_literal ''1.5'' = Inr (Finite (3 / 2))"
  by (simp_all add: literal_defs)

lemma digits_value_zeros:
  "foldl (\<lambda>a c. 10 * a + (of_char c - 48)) (a :: nat) (replicate n (CHR ''0'')) = a * 10 ^ n"
  by (induction n arbitrary: a) simp_all

lemma big_fields:
  "split_comma (strip big_line) = [CHR ''1'' # replicate 310 (CHR ''0''), ''0'', ''2'', ''1.5'']"
proof -
  have s: "strip big_line = CHR ''1'' # replicate 310 (CHR ''0'') @ '',0,2,1.5''"
    unfolding big_line_def by (rule strip_line) (simp_all add: is_space_def)
  have c: "CHR '','' \<notin> set (CHR ''1'' # replicate 310 (CHR ''0''))" by simp
  have "split_comma ((CHR ''1'' # replicate 310 (CHR ''0'')) @ CHR '','' # ''0,2,1.5'')
          = (CHR ''1'' # replicate 310 (CHR ''0'')) # split_comma ''0,2,1.5''"
    using c by (rule split_comma_field)
  then show ?thesis by (simp add: s)
qed

lemma big_value:
  "int_literal (CHR ''1'' # replicate 310 (CHR ''0'')) = Inr big_raw"
proof -
  have d: "list_all is_digit (replicate 310 (CHR ''0''))"
    by (simp add: list_all_iff is_digit_def)
  have "digits_value (CHR ''1'' # replicate 310 (CHR ''0'')) = 10 ^ 310"
    by (simp add: digits_value_def digits_value_zeros)
  then have v: "int (digits_value (CHR ''1'' # replicate 310 (CHR ''0''))) = big_raw"
    unfolding big_raw_def by (simp only: of_nat_power of_nat_numeral)
  have "unsigned_literal (CHR ''1'' # replicate 310 (CHR ''0'')) = Inr big_raw"
    using d by (simp add: unsigned_literal_def v is_digit_def)
  then show ?thesis by (simp add: int_literal_def)
qed

lemma big_overflows: "\<not> in_float_range big_raw 0"
proof -
  have "(2::rat) ^ 1024 - 2 ^ 970 \<le> 120 * 10 ^ 310 / 4095" by simp
  then show ?thesis
    by (simp add: in_float_range_def float_overflow_def big_raw_def abs_mult)
qed

lemma example_run_opens:
  "map_sum id fst (main_loop int_literal float_literal example_run (boot 10)) = Inr [10, 12, 14]"
  by (simp add: example_run_def tick_at_def boot_def module_state_def set_no_data_state_eq
      tick_def try_open_serial_def process_serial_data_def process_frame_def
      staleness_check_def close_serial_eq SERIAL_RETRY_SECONDS_def DATA_STALE_SECONDS_def
      line_def strip_def is_space_def literal_defs map_value_def float_overflow_def Let_def)

subsection \<open>Seeding after a stale reset\<close>

text \<open>
  C1. The claim reads: for the first valid frame after a stale reset the smoothing step
  is skipped, and the stored smoothed rudder angle and RPM equal the mapped raw values
  of that frame. The code skips the smoothing step only when the stored smoothed value
  is zero, and the reset stores 180 and 3000: the first frame is blended with the
  centred values. For the frame \<open>0,0,2,1.5\<close>, whose mapped values are 240 degrees and
  0 RPM, the values stored after a reset are 198 and 2100.
\<close>

theorem first_frame_after_reset_is_blended:
  "map_value 0 0 4095 240 120 = Inr 240 \<and> map_value 0 0 4095 0 6000 = Inr 0 \<and>
   process_serial_data int_literal float_literal (Inr (line ''0,0,2,1.5'')) (Inr ()) 11
       (set_no_data_state live_state) =
     Inr ([], live_state\<lparr>shift_indicator := Some 2, fuel_consumption := Some (Finite (3 / 2)),
            smoothed_engine_rpm := 2100, smoothed_rudder_angle := 198,
            rudder_angle := 198, engine_rpm := 2100, last_good_frame_time := 11\<rparr>)"
proof -
  have m: "map_value 0 0 4095 240 120 = Inr 240 \<and> map_value 0 0 4095 0 6000 = Inr 0"
    by (simp add: map_value_def float_overflow_def)
  have f: "process_frame int_literal float_literal (Inr (line ''0,0,2,1.5'')) 11
             (set_no_data_state live_state) =
           (Inr (), live_state\<lparr>shift_indicator := Some 2,
              fuel_consumption := Some (Finite (3 / 2)),
              smoothed_engine_rpm := 2100, smoothed_rudder_angle := 198,
              rudder_angle := 198, engine_rpm := 2100, last_good_frame_time := 11\<rparr>)"
    by (subst process_frame_ok [where p = 0 and ?p2.0 = 0 and g = 2 and f = "Finite (3 / 2)"])
       (simp_all add: ex_fields1 literal_defs set_no_data_state_eq live_state_def
          zero_in_float_range)
  show ?thesis using m f
    by (simp add: process_serial_data_def set_no_data_state_eq live_state_def)
qed

subsection \<open>Rejected lines\<close>

text \<open>
  C2. The claim reads: a line with fewer than four fields, or with a field among the
  first four that fails to parse, changes no displayed state, not even partially. The
  code assigns the gear code to the global as soon as the third field is parsed, before
  the fourth field is: for the line \<open>0,0,3,x\<close> the gear code changes from absent to 3
  although the line is rejected.
\<close>

theorem bad_fuel_field_changes_gear:
  "shift_indicator connected_boot = None \<and>
   float_literal ''x'' = Inl ValueError \<and>
   process_serial_data int_literal float_literal (Inr (line ''0,0,3,x'')) (Inr ()) 11 connected_boot =
     Inr ([Serial SERIAL_PORT SERIAL_BAUD],
          connected_boot\<lparr>shift_indicator := Some 3, ser := None\<rparr>)"
proof -
  have f: "process_frame int_literal float_literal (Inr (line ''0,0,3,x'')) 11 connected_boot =
           (Inl ValueError, connected_boot\<lparr>shift_indicator := Some 3\<rparr>)"
    by (subst process_frame_fail3 [where p = 0 and ?p2.0 = 0 and g = 3 and e = ValueError])
       (simp_all add: ex_fields2 literal_defs)
  have c: "ser connected_boot = Some (Serial SERIAL_PORT SERIAL_BAUD)
             \<and> shift_indicator connected_boot = None"
    by (simp add: connected_boot_def boot_def set_no_data_state_eq module_state_def)
  have x: "float_literal ''x'' = Inl ValueError"
    by (simp add: literal_defs)
  show ?thesis using f c x
    by (simp add: process_serial_data_def close_serial_eq)
qed

text \<open>
  C3. The claim reads: a numeric parse failure drops the frame and leaves the serial
  connection open; only a fault of the read collapses the connection. The parse runs
  inside the same \<open>try\<close> block as the read, and the one handler closes the port: for
  the line \<open>x,0,0,0\<close>, read on an open port, \<open>close()\<close> is called on the handle
  and the handle is gone afterwards, whereas the line \<open>1,2,3\<close>, which is too short,
  leaves the port open.
\<close>

theorem parse_failure_closes_port:
  "ser connected_boot = Some (Serial SERIAL_PORT SERIAL_BAUD) \<and>
   int_literal ''x'' = Inl ValueError \<and>
   process_serial_data int_literal float_literal (Inr (line ''x,0,0,0'')) (Inr ()) 11 connected_boot =
     Inr ([Serial SERIAL_PORT SERIAL_BAUD], connected_boot\<lparr>ser := None\<rparr>) \<and>
   process_serial_data int_literal float_literal (Inr (line ''1,2,3'')) (Inr ()) 11 connected_boot =
     Inr ([], connected_boot)"
proof -
  have f: "process_frame int_literal float_literal (Inr (line ''x,0,0,0'')) 11 connected_boot =
           (Inl ValueError, connected_boot)"
    by (subst process_frame_fail0 [where e = ValueError])
       (simp_all add: ex_fields3 literal_defs)
  have g: "process_frame int_literal float_literal (Inr (line ''1,2,3'')) 11 connected_boot =
           (Inr (), connected_boot)"
    by (rule process_frame_short) (simp add: ex_fields6)
  have c: "ser connected_boot = Some (Serial SERIAL_PORT SERIAL_BAUD)"
    by (simp add: connected_boot_def)
  have x: "int_literal ''x'' = Inl ValueError"
    by (simp add: literal_defs)
  show ?thesis using f g c x
    by (simp add: process_serial_data_def close_serial_eq)
qed

subsection \<open>The two linear maps\<close>

text \<open>
  C4. With the arguments of lines 136 and 137, \<open>map_value\<close> is the linear function
  taking 0 to 240 and 4095 to 120 for the trim angle, and the linear function taking 0
  to 0 and 4095 to 6000 for the RPM: so it is for every raw value whose division does
  not overflow, and the raw values from 0 to 4095 are among them; at the raw values 0
  and 4095 the results are exactly 240, 120, 0 and 6000. For every line whose first
  four fields parse to such raw values, read on an open port, it is these mapped values
  that enter the smoothed values (unblended when the smoothed value was zero), and the
  displayed values are the smoothed ones.
\<close>

theorem valid_frame_mapping:
  "(\<not> float_overflow (of_int (r * (120 - 240)) / 4095) \<longrightarrow>
      map_value r 0 4095 240 120 = Inr (240 - 120 * of_int r / 4095)) \<and>
   (\<not> float_overflow (of_int (r * (6000 - 0)) / 4095) \<longrightarrow>
      map_value r 0 4095 0 6000 = Inr (6000 * of_int r / 4095)) \<and>
   (0 \<le> r \<and> r \<le> 4095 \<longrightarrow>
      map_value r 0 4095 240 120 = Inr (240 - 120 * of_int r / 4095) \<and>
      map_value r 0 4095 0 6000 = Inr (6000 * of_int r / 4095)) \<and>
   map_value 0 0 4095 240 120 = Inr 240 \<and>
   map_value 4095 0 4095 240 120 = Inr 120 \<and>
   map_value 0 0 4095 0 6000 = Inr 0 \<and>
   map_value 4095 0 4095 0 6000 = Inr 6000 \<and>
   (0 \<le> p \<and> p \<le> 4095 \<and> 0 \<le> p2 \<and> p2 \<le> 4095 \<longrightarrow> in_float_range p p2) \<and>
   (ser s = Some h \<and> 4 \<le> length (split_comma (strip raw))
      \<and> py_int (split_comma (strip raw) ! 0) = Inr p
      \<and> py_int (split_comma (strip raw) ! 1) = Inr p2
      \<and> py_int (split_comma (strip raw) ! 2) = Inr g
      \<and> py_float (split_comma (strip raw) ! 3) = Inr f
      \<and> in_float_range p p2 \<longrightarrow>
      (\<exists>s'. process_serial_data py_int py_float (Inr raw) cl now s = Inr ([], s')
         \<and> smoothed_rudder_angle s'
             = (if smoothed_rudder_angle s = 0 then 240 - 120 * of_int p / 4095
                else 3 / 10 * (240 - 120 * of_int p / 4095) + 7 / 10 * smoothed_rudder_angle s)
         \<and> smoothed_engine_rpm s'
             = (if smoothed_engine_rpm s = 0 then 6000 * of_int p2 / 4095
                else 3 / 10 * (6000 * of_int p2 / 4095) + 7 / 10 * smoothed_engine_rpm s)
         \<and> rudder_angle s' = smoothed_rudder_angle s'
         \<and> engine_rpm s' = smoothed_engine_rpm s'))"
proof -
  have t: "map_value r 0 4095 240 120 = Inr (240 - 120 * of_int r / 4095)"
    if "\<not> float_overflow (of_int (r * (120 - 240)) / 4095)"
    using that by (simp add: map_value_trim)
  have v: "map_value r 0 4095 0 6000 = Inr (6000 * of_int r / 4095)"
    if "\<not> float_overflow (of_int (r * (6000 - 0)) / 4095)"
    using that by (simp add: map_value_rpm)
  have i: "map_value r 0 4095 240 120 = Inr (240 - 120 * of_int r / 4095) \<and>
      map_value r 0 4095 0 6000 = Inr (6000 * of_int r / 4095)"
    if "0 \<le> r \<and> r \<le> 4095"
  proof -
    from that have "in_float_range r r" by (simp add: raw_range_in_float_range)
    then show ?thesis by (simp add: in_float_range_def map_value_trim map_value_rpm)
  qed
  have e: "map_value 0 0 4095 240 120 = Inr 240 \<and>
    map_value 4095 0 4095 240 120 = Inr 120 \<and>
    map_value 0 0 4095 0 6000 = Inr 0 \<and>
    map_value 4095 0 4095 0 6000 = Inr 6000"
    by (simp add: map_value_def float_overflow_def)
  have ir: "in_float_range p p2" if "0 \<le> p \<and> p \<le> 4095 \<and> 0 \<le> p2 \<and> p2 \<le> 4095"
    using that by (simp add: raw_range_in_float_range)
  have fr: "\<exists>s'. process_serial_data py_int py_float (Inr raw) cl now s = Inr ([], s')
         \<and> smoothed_rudder_angle s'
             = (if smoothed_rudder_angle s = 0 then 240 - 120 * of_int p / 4095
                else 3 / 10 * (240 - 120 * of_int p / 4095) + 7 / 10 * smoothed_rudder_angle s)
         \<and> smoothed_engine_rpm s'
             = (if smoothed_engine_rpm s = 0 then 6000 * of_int p2 / 4095
                else 3 / 10 * (6000 * of_int p2 / 4095) + 7 / 10 * smoothed_engine_rpm s)
         \<and> rudder_angle s' = smoothed_rudder_angle s'
         \<and> engine_rpm s' = smoothed_engine_rpm s'"
    if c: "ser s = Some h" and w: "4 \<le> length (split_comma (strip raw))"
      "py_int (split_comma (strip raw) ! 0) = Inr p"
      "py_int (split_comma (strip raw) ! 1) = Inr p2"
      "py_int (split_comma (strip raw) ! 2) = Inr g"
      "py_float (split_comma (strip raw) ! 3) = Inr f"
      "in_float_range p p2"
    using c process_frame_ok [where py_int = py_int and py_float = py_float and now = now
                                and s = s, OF w]
    by (simp add: process_serial_data_def)
  from t v i e ir fr show ?thesis by blast
qed

theorem valid_frame_mapping_witness:
  "map_value 2048 0 4095 240 120 = Inr (49136 / 273) \<and>
   map_value 2048 0 4095 0 6000 = Inr (819200 / 273) \<and>
   in_float_range 4095 4095 \<and>
   (\<exists>s'. process_serial_data int_literal float_literal (Inr (line ''4095,4095,1,0.5'')) (Inr ()) 11
           (connected_boot\<lparr>smoothed_engine_rpm := 0\<rparr>) = Inr ([], s')
      \<and> smoothed_rudder_angle s' = 162 \<and> smoothed_engine_rpm s' = 6000
      \<and> rudder_angle s' = 162 \<and> engine_rpm s' = 6000)"
proof -
  let ?s = "connected_boot\<lparr>smoothed_engine_rpm := 0\<rparr>"
  have c: "ser ?s = Some (Serial SERIAL_PORT SERIAL_BAUD)"
    by (simp add: connected_boot_def)
  have v: "4 \<le> length (split_comma (strip (line ''4095,4095,1,0.5'')))"
    "int_literal (split_comma (strip (line ''4095,4095,1,0.5'')) ! 0) = Inr 4095"
    "int_literal (split_comma (strip (line ''4095,4095,1,0.5'')) ! 1) = Inr 4095"
    "int_literal (split_comma (strip (line ''4095,4095,1,0.5'')) ! 2) = Inr 1"
    "float_literal (split_comma (strip (line ''4095,4095,1,0.5'')) ! 3) = Inr (Finite (1 / 2))"
    by (simp_all add: ex_fields7 ex_parse7)
  have k: "smoothed_rudder_angle ?s = 180 \<and> smoothed_engine_rpm ?s = 0"
    by (simp add: connected_boot_def boot_def set_no_data_state_eq)
  have b: "(0::int) \<le> 4095 \<and> (4095::int) \<le> 4095" by simp
  note t = valid_frame_mapping
         [of 2048 4095 4095 ?s "Serial SERIAL_PORT SERIAL_BAUD" "line ''4095,4095,1,0.5''"
             int_literal 1 float_literal "Finite (1 / 2)" "Inr ()" 11]
  from t b have r: "in_float_range 4095 4095" by blast
  have b2: "(0::int) \<le> 2048 \<and> (2048::int) \<le> 4095" by simp
  from t b2 have m: "map_value 2048 0 4095 240 120 = Inr (49136 / 273) \<and>
      map_value 2048 0 4095 0 6000 = Inr (819200 / 273)"
    by simp
  from t c v k r
  have "\<exists>s'. process_serial_data int_literal float_literal (Inr (line ''4095,4095,1,0.5''))
           (Inr ()) 11 ?s = Inr ([], s')
      \<and> smoothed_rudder_angle s' = 162 \<and> smoothed_engine_rpm s' = 6000
      \<and> rudder_angle s' = 162 \<and> engine_rpm s' = 6000"
    by auto
  with r m show ?thesis by blast
qed

subsection \<open>Staleness\<close>

text \<open>
  C5. Every iteration of the loop ends without an exception, and when at its staleness
  check more than \<open>DATA_STALE_SECONDS\<close> (one second) have passed since the last good
  frame, the state it leaves has rudder angle 180, RPM 3000 (displayed and smoothed),
  smoothed rudder angle 180 and neither gear code nor fuel rate, whatever the state
  before.
\<close>

theorem stale_tick_resets_display:
  "\<exists>a s'. tick py_int py_float e s = Inr (a, s') \<and>
     (DATA_STALE_SECONDS < t_check e - last_good_frame_time s' \<longrightarrow>
        rudder_angle s' = 180 \<and> engine_rpm s' = 3000 \<and> smoothed_engine_rpm s' = 3000
        \<and> smoothed_rudder_angle s' = 180 \<and> shift_indicator s' = None
        \<and> fuel_consumption s' = None)"
proof -
  obtain a s1 where t: "try_open_serial (t_open e) (serial_open e) (serial_reset e) s = (a, s1)"
    by (cases "try_open_serial (t_open e) (serial_open e) (serial_reset e) s")
  obtain cs s2 where p: "process_serial_data py_int py_float (serial_readline e) (serial_close e)
                        (t_frame e) s1 = Inr (cs, s2)"
    using process_serial_data_returns by blast
  let ?s' = "staleness_check (t_check e) s2"
  have r: "tick py_int py_float e s = Inr (a, ?s')"
    by (simp add: tick_def t p)
  have "rudder_angle ?s' = 180 \<and> engine_rpm ?s' = 3000 \<and> smoothed_engine_rpm ?s' = 3000
        \<and> smoothed_rudder_angle ?s' = 180 \<and> shift_indicator ?s' = None
        \<and> fuel_consumption ?s' = None"
    if "DATA_STALE_SECONDS < t_check e - last_good_frame_time ?s'"
  proof -
    from that have "DATA_STALE_SECONDS < t_check e - last_good_frame_time s2"
      by (simp add: staleness_check_good_time)
    then have "?s' = set_no_data_state s2" by (rule staleness_check_stale)
    then show ?thesis by (simp add: set_no_data_state_eq)
  qed
  with r show ?thesis by blast
qed

theorem stale_tick_resets_display_witness:
  "tick int_literal float_literal quiet_tick live_state =
     Inr (False, live_state\<lparr>smoothed_rudder_angle := 180, smoothed_engine_rpm := 3000,
            rudder_angle := 180, engine_rpm := 3000, shift_indicator := None,
            fuel_consumption := None\<rparr>)
   \<and> DATA_STALE_SECONDS < t_check quiet_tick - last_good_frame_time live_state"
proof -
  have r: "tick int_literal float_literal quiet_tick live_state =
     Inr (False, live_state\<lparr>smoothed_rudder_angle := 180, smoothed_engine_rpm := 3000,
            rudder_angle := 180, engine_rpm := 3000, shift_indicator := None,
            fuel_consumption := None\<rparr>)"
    by (simp add: tick_def try_open_serial_def process_serial_data_def process_frame_def
        staleness_check_def set_no_data_state_eq quiet_tick_def live_state_def
        DATA_STALE_SECONDS_def)
  have h: "DATA_STALE_SECONDS < t_check quiet_tick - last_good_frame_time live_state"
    by (simp add: quiet_tick_def live_state_def DATA_STALE_SECONDS_def)
  from stale_tick_resets_display [of int_literal float_literal quiet_tick live_state] r h
  show ?thesis by simp
qed

subsection \<open>Open attempts\<close>

text \<open>
  C6. \<open>try_open_serial\<close> does nothing when a connection exists, and nothing when less
  than \<open>SERIAL_RETRY_SECONDS\<close> (two seconds) have passed since the last attempt; after
  an attempt, successful or failed, every call less than two seconds later does
  nothing; and over any run of the loop, from any state, each call of
  \<open>serial.Serial(...)\<close> comes at least two seconds after every earlier one.
\<close>

theorem open_attempts_respect_cooldown:
  "(ser s \<noteq> None \<longrightarrow> try_open_serial now o_r r_r s = (False, s)) \<and>
   (now - last_serial_try_time s < SERIAL_RETRY_SECONDS \<longrightarrow>
      try_open_serial now o_r r_r s = (False, s)) \<and>
   (fst (try_open_serial now o_r r_r s) \<longrightarrow>
      (\<forall>t q r. t - now < SERIAL_RETRY_SECONDS \<longrightarrow>
         try_open_serial t q r (snd (try_open_serial now o_r r_r s))
           = (False, snd (try_open_serial now o_r r_r s)))) \<and>
   (\<exists>opens s'. main_loop py_int py_float es s = Inr (opens, s') \<and> spaced opens)"
proof -
  have a: "ser s \<noteq> None \<longrightarrow> try_open_serial now o_r r_r s = (False, s)"
    by (simp add: try_open_serial_connected)
  have b: "now - last_serial_try_time s < SERIAL_RETRY_SECONDS \<longrightarrow>
      try_open_serial now o_r r_r s = (False, s)"
    by (simp add: try_open_serial_cooldown)
  have c: "fst (try_open_serial now o_r r_r s) \<longrightarrow>
      (\<forall>t q r. t - now < SERIAL_RETRY_SECONDS \<longrightarrow>
         try_open_serial t q r (snd (try_open_serial now o_r r_r s))
           = (False, snd (try_open_serial now o_r r_r s)))"
  proof (intro impI allI)
    fix t q r
    assume f: "fst (try_open_serial now o_r r_r s)" and w: "t - now < SERIAL_RETRY_SECONDS"
    from try_open_serial_attempt [OF f] w
    have "t - last_serial_try_time (snd (try_open_serial now o_r r_r s)) < SERIAL_RETRY_SECONDS"
      by simp
    then show "try_open_serial t q r (snd (try_open_serial now o_r r_r s))
           = (False, snd (try_open_serial now o_r r_r s))"
      by (rule try_open_serial_cooldown)
  qed
  have d: "\<exists>opens s'. main_loop py_int py_float es s = Inr (opens, s') \<and> spaced opens"
    using main_loop_spaced [of py_int py_float es s] by blast
  from a b c d show ?thesis by blast
qed

theorem open_attempts_respect_cooldown_witness:
  "fst (try_open_serial 10 (Inl SerialException) (Inr ()) (boot 10)) \<and>
   try_open_serial 11 (Inr (Serial SERIAL_PORT SERIAL_BAUD)) (Inr ())
       (snd (try_open_serial 10 (Inl SerialException) (Inr ()) (boot 10)))
     = (False, snd (try_open_serial 10 (Inl SerialException) (Inr ()) (boot 10))) \<and>
   ser live_state \<noteq> None \<and>
   try_open_serial 100 (Inr (Serial SERIAL_PORT SERIAL_BAUD)) (Inr ()) live_state
     = (False, live_state) \<and>
   4 - last_serial_try_time live_state < SERIAL_RETRY_SECONDS \<and>
   try_open_serial 4 (Inr (Serial SERIAL_PORT SERIAL_BAUD)) (Inr ()) (live_state\<lparr>ser := None\<rparr>)
     = (False, live_state\<lparr>ser := None\<rparr>) \<and>
   map_sum id fst (main_loop int_literal float_literal example_run (boot 10)) = Inr [10, 12, 14] \<and>
   spaced [10, 12, 14]"
proof -
  have h1: "fst (try_open_serial 10 (Inl SerialException) (Inr ()) (boot 10))"
    by (simp add: try_open_serial_def boot_def module_state_def set_no_data_state_eq
        SERIAL_RETRY_SECONDS_def)
  have h2: "(11::rat) - 10 < SERIAL_RETRY_SECONDS"
    by (simp add: SERIAL_RETRY_SECONDS_def)
  have h3: "ser live_state \<noteq> None"
    by (simp add: live_state_def)
  have h4: "4 - last_serial_try_time (live_state\<lparr>ser := None\<rparr>) < SERIAL_RETRY_SECONDS"
    by (simp add: live_state_def SERIAL_RETRY_SECONDS_def)
  have r: "map_sum id fst (main_loop int_literal float_literal example_run (boot 10))
             = Inr [10, 12, 14]"
    by (rule example_run_opens)
  have sp: "spaced [10, 12, 14]"
    by (simp add: SERIAL_RETRY_SECONDS_def)
  from open_attempts_respect_cooldown
         [of "boot 10" 10 "Inl SerialException" "Inr ()" int_literal float_literal example_run]
       h1 h2
  have c2: "try_open_serial 11 (Inr (Serial SERIAL_PORT SERIAL_BAUD)) (Inr ())
       (snd (try_open_serial 10 (Inl SerialException) (Inr ()) (boot 10)))
     = (False, snd (try_open_serial 10 (Inl SerialException) (Inr ()) (boot 10)))"
    by blast
  from open_attempts_respect_cooldown
         [of live_state 100 "Inr (Serial SERIAL_PORT SERIAL_BAUD)" "Inr ()"
             int_literal float_literal "[]"] h3
  have c4: "try_open_serial 100 (Inr (Serial SERIAL_PORT SERIAL_BAUD)) (Inr ()) live_state
     = (False, live_state)"
    by blast
  from open_attempts_respect_cooldown
         [of "live_state\<lparr>ser := None\<rparr>" 4 "Inr (Serial SERIAL_PORT SERIAL_BAUD)" "Inr ()"
             int_literal float_literal "[]"] h4
  have c6: "try_open_serial 4 (Inr (Serial SERIAL_PORT SERIAL_BAUD)) (Inr ())
       (live_state\<lparr>ser := None\<rparr>) = (False, live_state\<lparr>ser := None\<rparr>)"
    by blast
  from h4 have h4': "4 - last_serial_try_time live_state < SERIAL_RETRY_SECONDS"
    by simp
  from h1 c2 h3 c4 h4' c6 r sp show ?thesis by blast
qed

subsection \<open>Faults while reading\<close>

text \<open>
  C7. When the port is open and the body of the \<open>try\<close> block raises (the read, or
  anything after it), \<open>process_serial_data\<close> returns normally: \<open>close()\<close> has been
  called on the handle, once, and whatever that call did, the handle is absent and the
  time of the last open attempt is unchanged; afterwards \<open>try_open_serial\<close> attempts
  to open exactly when the cooldown has passed, and behaves as on any state without a
  handle that has the same time of the last attempt.
\<close>

theorem read_fault_closes_and_recovers:
  assumes "ser s = Some h"
    and "fst (process_frame py_int py_float rd now s) = Inl e"
  shows "\<exists>s'. process_serial_data py_int py_float rd cl now s = Inr ([h], s')
           \<and> ser s' = None
           \<and> last_serial_try_time s' = last_serial_try_time s
           \<and> (\<forall>t q r. fst (try_open_serial t q r s')
                 = (\<not> t - last_serial_try_time s < SERIAL_RETRY_SECONDS))
           \<and> (\<forall>s0 t q r. ser s0 = None \<and> last_serial_try_time s0 = last_serial_try_time s \<longrightarrow>
                 fst (try_open_serial t q r s') = fst (try_open_serial t q r s0)
                 \<and> ser (snd (try_open_serial t q r s')) = ser (snd (try_open_serial t q r s0))
                 \<and> last_serial_try_time (snd (try_open_serial t q r s'))
                     = last_serial_try_time (snd (try_open_serial t q r s0)))"
proof -
  obtain s1 where pf: "process_frame py_int py_float rd now s = (Inl e, s1)"
    using assms(2) by (cases "process_frame py_int py_float rd now s") simp
  let ?s' = "s1\<lparr>ser := None\<rparr>"
  have r: "process_serial_data py_int py_float rd cl now s = Inr ([h], ?s')"
    using process_serial_data_raised [OF assms(1) pf] .
  have n: "ser ?s' = None" by simp
  have l: "last_serial_try_time ?s' = last_serial_try_time s"
    using process_frame_keeps [OF pf] by simp
  have o: "\<forall>t q r. fst (try_open_serial t q r ?s')
                 = (\<not> t - last_serial_try_time s < SERIAL_RETRY_SECONDS)"
    using try_open_serial_disconnected(1) [OF n] l by simp
  have c: "\<forall>s0 t q r. ser s0 = None \<and> last_serial_try_time s0 = last_serial_try_time s \<longrightarrow>
                 fst (try_open_serial t q r ?s') = fst (try_open_serial t q r s0)
                 \<and> ser (snd (try_open_serial t q r ?s')) = ser (snd (try_open_serial t q r s0))
                 \<and> last_serial_try_time (snd (try_open_serial t q r ?s'))
                     = last_serial_try_time (snd (try_open_serial t q r s0))"
  proof (intro allI impI)
    fix s0 :: state and t :: rat and q :: "error + serial" and r :: "error + unit"
    assume a: "ser s0 = None \<and> last_serial_try_time s0 = last_serial_try_time s"
    then have a1: "ser s0 = None" and a2: "last_serial_try_time s0 = last_serial_try_time s"
      by simp_all
    show "fst (try_open_serial t q r ?s') = fst (try_open_serial t q r s0)
                 \<and> ser (snd (try_open_serial t q r ?s')) = ser (snd (try_open_serial t q r s0))
                 \<and> last_serial_try_time (snd (try_open_serial t q r ?s'))
                     = last_serial_try_time (snd (try_open_serial t q r s0))"
      unfolding try_open_serial_disconnected [OF n] try_open_serial_disconnected [OF a1]
      using l a2 by simp
  qed
  from r n l o c show ?thesis by blast
qed

theorem read_fault_closes_and_recovers_witness:
  "ser live_state = Some (Serial SERIAL_PORT SERIAL_BAUD) \<and>
   fst (process_frame int_literal float_literal (Inl SerialException) 6 live_state)
     = Inl SerialException \<and>
   process_serial_data int_literal float_literal (Inl SerialException) (Inl OSError) 6 live_state
     = Inr ([Serial SERIAL_PORT SERIAL_BAUD], live_state\<lparr>ser := None\<rparr>)"
proof -
  have a: "ser live_state = Some (Serial SERIAL_PORT SERIAL_BAUD)"
    by (simp add: live_state_def)
  have b: "fst (process_frame int_literal float_literal (Inl SerialException) 6 live_state)
     = Inl SerialException"
    by (simp add: process_frame_read_error)
  have c: "process_serial_data int_literal float_literal (Inl SerialException) (Inl OSError) 6
             live_state = Inr ([Serial SERIAL_PORT SERIAL_BAUD], live_state\<lparr>ser := None\<rparr>)"
    using a by (simp add: process_serial_data_def process_frame_read_error close_serial_eq)
  from read_fault_closes_and_recovers [OF a b, of "Inl OSError"] a b c
  show ?thesis by blast
qed

subsection \<open>The reset\<close>

text \<open>
  C8. Applying \<open>set_no_data_state\<close> twice gives the same state as applying it once,
  for every state: re-applying the centred defaults on every stale tick changes nothing.
\<close>

theorem set_no_data_state_idempotent:
  "set_no_data_state (set_no_data_state s) = set_no_data_state s"
  by (simp add: set_no_data_state_eq)

subsection \<open>Gear code and fuel rate\<close>

text \<open>
  C9. After a line whose first four fields parse, read on an open port, the gear code
  and the fuel rate are exactly the parsed values. The fuel box shows a dash when the
  fuel rate is absent and the formatted value otherwise; the gear box shows a dash when
  the gear code is absent; after \<open>set_no_data_state\<close> both boxes show a dash.
\<close>

theorem gear_and_fuel_stored_verbatim:
  "(ser s = Some h \<and> 4 \<le> length (split_comma (strip raw))
      \<and> py_int (split_comma (strip raw) ! 0) = Inr p
      \<and> py_int (split_comma (strip raw) ! 1) = Inr p2
      \<and> py_int (split_comma (strip raw) ! 2) = Inr g
      \<and> py_float (split_comma (strip raw) ! 3) = Inr f \<longrightarrow>
      (\<exists>cs s'. process_serial_data py_int py_float (Inr raw) cl now s = Inr (cs, s')
         \<and> shift_indicator s' = Some g \<and> fuel_consumption s' = Some f)) \<and>
   (fuel_consumption s = None \<longrightarrow> fuel_str fmt s = ''-'') \<and>
   (shift_indicator s = None \<longrightarrow> gear_letter s = ''-'') \<and>
   (fuel_consumption s = Some x \<longrightarrow> fuel_str fmt s = fmt x) \<and>
   fuel_str fmt (set_no_data_state s) = ''-'' \<and> gear_letter (set_no_data_state s) = ''-''"
proof -
  have a: "\<exists>cs s'. process_serial_data py_int py_float (Inr raw) cl now s = Inr (cs, s')
         \<and> shift_indicator s' = Some g \<and> fuel_consumption s' = Some f"
    if w: "ser s = Some h" "4 \<le> length (split_comma (strip raw))"
      "py_int (split_comma (strip raw) ! 0) = Inr p"
      "py_int (split_comma (strip raw) ! 1) = Inr p2"
      "py_int (split_comma (strip raw) ! 2) = Inr g"
      "py_float (split_comma (strip raw) ! 3) = Inr f"
  proof (cases "in_float_range p p2")
    case True
    from process_serial_data_accepted
           [where py_int = py_int and py_float = py_float and cl = cl and now = now, OF w True]
    show ?thesis by (simp add: accepted_def)
  next
    case False
    from process_serial_data_overflow
           [where py_int = py_int and py_float = py_float and cl = cl and now = now, OF w False]
    show ?thesis by simp
  qed
  have b: "fuel_consumption s = None \<longrightarrow> fuel_str fmt s = ''-''"
    by (simp add: fuel_str_def)
  have c: "shift_indicator s = None \<longrightarrow> gear_letter s = ''-''"
    by (simp add: gear_letter_def)
  have d: "fuel_consumption s = Some x \<longrightarrow> fuel_str fmt s = fmt x"
    by (simp add: fuel_str_def)
  have e: "fuel_str fmt (set_no_data_state s) = ''-'' \<and> gear_letter (set_no_data_state s) = ''-''"
    by (simp add: fuel_str_def gear_letter_def set_no_data_state_eq)
  from a b c d e show ?thesis by blast
qed

theorem gear_and_fuel_stored_verbatim_witness:
  "(\<exists>cs s'. process_serial_data int_literal float_literal (Inr (line ''5000,-10,7,2.5,junk''))
            (Inr ()) 11 connected_boot = Inr (cs, s')
         \<and> shift_indicator s' = Some 7 \<and> fuel_consumption s' = Some (Finite (5 / 2))) \<and>
   fuel_consumption connected_boot = None \<and>
   fuel_str (\<lambda>x. ''2.0'') connected_boot = ''-'' \<and>
   shift_indicator connected_boot = None \<and>
   gear_letter connected_boot = ''-'' \<and>
   fuel_consumption live_state = Some (Finite 2) \<and>
   fuel_str (\<lambda>x. ''2.0'') live_state = ''2.0''"
proof -
  have s: "ser connected_boot = Some (Serial SERIAL_PORT SERIAL_BAUD)"
    by (simp add: connected_boot_def)
  have l: "4 \<le> length (split_comma (strip (line ''5000,-10,7,2.5,junk'')))"
    by (simp add: ex_fields5)
  have p: "int_literal (split_comma (strip (line ''5000,-10,7,2.5,junk'')) ! 0) = Inr 5000"
    "int_literal (split_comma (strip (line ''5000,-10,7,2.5,junk'')) ! 1) = Inr (- 10)"
    "int_literal (split_comma (strip (line ''5000,-10,7,2.5,junk'')) ! 2) = Inr 7"
    "float_literal (split_comma (strip (line ''5000,-10,7,2.5,junk'')) ! 3) = Inr (Finite (5 / 2))"
    by (simp_all add: ex_fields5 ex_parse5)
  have n: "fuel_consumption connected_boot = None \<and> shift_indicator connected_boot = None"
    by (simp add: connected_boot_def boot_def set_no_data_state_eq)
  have v: "fuel_consumption live_state = Some (Finite 2)"
    by (simp add: live_state_def)
  note t1 = gear_and_fuel_stored_verbatim
    [of connected_boot "Serial SERIAL_PORT SERIAL_BAUD" "line ''5000,-10,7,2.5,junk''"
        int_literal 5000 "- 10" 7 float_literal "Finite (5 / 2)" "Inr ()" 11 "\<lambda>x. ''2.0''"
        "Finite 2"]
  note t2 = gear_and_fuel_stored_verbatim
    [of live_state "Serial SERIAL_PORT SERIAL_BAUD" "line ''5000,-10,7,2.5,junk''"
        int_literal 5000 "- 10" 7 float_literal "Finite (5 / 2)" "Inr ()" 11 "\<lambda>x. ''2.0''"
        "Finite 2"]
  from t1 s l p have a: "\<exists>cs s'. process_serial_data int_literal float_literal
            (Inr (line ''5000,-10,7,2.5,junk'')) (Inr ()) 11 connected_boot = Inr (cs, s')
         \<and> shift_indicator s' = Some 7 \<and> fuel_consumption s' = Some (Finite (5 / 2))"
    by simp
  from t1 n have b: "fuel_str (\<lambda>x. ''2.0'') connected_boot = ''-''"
    by simp
  from t1 n have c: "gear_letter connected_boot = ''-''"
    by simp
  from t2 v have d: "fuel_str (\<lambda>x. ''2.0'') live_state = ''2.0''" by simp
  from a b c d n v show ?thesis by simp
qed

subsection \<open>Which lines are accepted\<close>

text \<open>
  C10, as stated, fails: the claim reads that a line is accepted exactly when it has
  at least four fields of which the first four parse, whatever the range of the raw
  values. The line \<open>big_line\<close> has four fields that parse, the first to
  \<open>10 ^ 310\<close>; the division of line 136 overflows, the handler closes the port, and
  the time of the last good frame stays 10.
\<close>

theorem overflowing_line_not_accepted:
  "parses int_literal float_literal big_line \<and>
   last_good_frame_time connected_boot = 10 \<and>
   process_serial_data int_literal float_literal (Inr big_line) (Inr ()) 11 connected_boot
     = Inr ([Serial SERIAL_PORT SERIAL_BAUD],
            connected_boot\<lparr>shift_indicator := Some 2,
              fuel_consumption := Some (Finite (3 / 2)), ser := None\<rparr>)"
proof -
  have p: "parses int_literal float_literal big_line"
    by (simp add: parses_def big_fields big_value ex_parse_big)
  have t: "last_good_frame_time connected_boot = 10"
    by (simp add: connected_boot_def boot_def)
  have c: "ser connected_boot = Some (Serial SERIAL_PORT SERIAL_BAUD)"
    by (simp add: connected_boot_def)
  have r: "process_serial_data int_literal float_literal (Inr big_line) (Inr ()) 11 connected_boot
     = Inr ([Serial SERIAL_PORT SERIAL_BAUD],
            connected_boot\<lparr>shift_indicator := Some 2,
              fuel_consumption := Some (Finite (3 / 2)), ser := None\<rparr>)"
    by (rule process_serial_data_overflow
               [where py_int = int_literal and py_float = float_literal
                  and p = big_raw and ?p2.0 = 0, OF c])
       (simp_all add: big_fields big_value ex_parse_big big_overflows)
  from p t r show ?thesis by blast
qed

text \<open>
  C10, amended. On an open port, a line is accepted exactly when it has at least four
  fields, the first four parse, and the two raw values are small enough for the
  divisions of lines 136 and 137 not to overflow: then the state becomes
  \<open>accepted p p2 g f now s\<close> for the parsed values, whatever the further fields and the
  gear code are and whether or not the raw values lie between 0 and 4095, the raw
  values being mapped by the linear functions without clamping. Any other line leaves
  the time of the last good frame and the gauge values as they were. So, when the
  clock reading differs from the time of the last good frame, the line is such a line
  exactly when that time becomes the clock reading.
\<close>

theorem line_accepted_iff_parses_in_range:
  assumes "ser s = Some h"
  shows "(parses py_int py_float raw \<and> raws_in_float_range py_int raw \<longrightarrow>
            (\<exists>p p2 g f. py_int (split_comma (strip raw) ! 0) = Inr p
               \<and> py_int (split_comma (strip raw) ! 1) = Inr p2
               \<and> py_int (split_comma (strip raw) ! 2) = Inr g
               \<and> py_float (split_comma (strip raw) ! 3) = Inr f
               \<and> process_serial_data py_int py_float (Inr raw) cl now s
                    = Inr ([], accepted p p2 g f now s))) \<and>
         (\<not> (parses py_int py_float raw \<and> raws_in_float_range py_int raw) \<longrightarrow>
            (\<exists>cs s'. process_serial_data py_int py_float (Inr raw) cl now s = Inr (cs, s')
               \<and> last_good_frame_time s' = last_good_frame_time s
               \<and> rudder_angle s' = rudder_angle s \<and> engine_rpm s' = engine_rpm s
               \<and> smoothed_rudder_angle s' = smoothed_rudder_angle s
               \<and> smoothed_engine_rpm s' = smoothed_engine_rpm s)) \<and>
         (last_good_frame_time s \<noteq> now \<longrightarrow>
            (parses py_int py_float raw \<and> raws_in_float_range py_int raw)
              = (\<exists>cs s'. process_serial_data py_int py_float (Inr raw) cl now s = Inr (cs, s')
                   \<and> last_good_frame_time s' = now))"
proof -
  have yes: "\<exists>p p2 g f. py_int (split_comma (strip raw) ! 0) = Inr p
               \<and> py_int (split_comma (strip raw) ! 1) = Inr p2
               \<and> py_int (split_comma (strip raw) ! 2) = Inr g
               \<and> py_float (split_comma (strip raw) ! 3) = Inr f
               \<and> process_serial_data py_int py_float (Inr raw) cl now s
                    = Inr ([], accepted p p2 g f now s)"
    if ok: "parses py_int py_float raw \<and> raws_in_float_range py_int raw"
  proof -
    from ok have len: "4 \<le> length (split_comma (strip raw))"
      by (simp add: parses_def Let_def)
    from ok parses_values [of py_int py_float raw] obtain p p2 g f where
      v: "py_int (split_comma (strip raw) ! 0) = Inr p"
         "py_int (split_comma (strip raw) ! 1) = Inr p2"
         "py_int (split_comma (strip raw) ! 2) = Inr g"
         "py_float (split_comma (strip raw) ! 3) = Inr f"
      by blast
    from ok raws_in_float_range_values [OF v(1) v(2)] have r: "in_float_range p p2"
      by simp
    from process_serial_data_accepted
           [where py_int = py_int and py_float = py_float and cl = cl and now = now,
            OF assms len v r] v
    show ?thesis by blast
  qed
  have no: "\<exists>cs s'. process_serial_data py_int py_float (Inr raw) cl now s = Inr (cs, s')
               \<and> last_good_frame_time s' = last_good_frame_time s
               \<and> rudder_angle s' = rudder_angle s \<and> engine_rpm s' = engine_rpm s
               \<and> smoothed_rudder_angle s' = smoothed_rudder_angle s
               \<and> smoothed_engine_rpm s' = smoothed_engine_rpm s"
    if "\<not> (parses py_int py_float raw \<and> raws_in_float_range py_int raw)"
    using rejected_line
            [where py_int = py_int and py_float = py_float and cl = cl and now = now,
             OF assms that]
    by blast
  have iff: "(parses py_int py_float raw \<and> raws_in_float_range py_int raw)
              = (\<exists>cs s'. process_serial_data py_int py_float (Inr raw) cl now s = Inr (cs, s')
                   \<and> last_good_frame_time s' = now)"
    if fresh: "last_good_frame_time s \<noteq> now"
  proof
    assume "parses py_int py_float raw \<and> raws_in_float_range py_int raw"
    from yes [OF this] obtain p p2 g f where
      "process_serial_data py_int py_float (Inr raw) cl now s
         = Inr ([], accepted p p2 g f now s)"
      by blast
    moreover have "last_good_frame_time (accepted p p2 g f now s) = now"
      by (simp add: accepted_def)
    ultimately show "\<exists>cs s'. process_serial_data py_int py_float (Inr raw) cl now s
                   = Inr (cs, s') \<and> last_good_frame_time s' = now"
      by blast
  next
    assume "\<exists>cs s'. process_serial_data py_int py_float (Inr raw) cl now s = Inr (cs, s')
                   \<and> last_good_frame_time s' = now"
    then obtain cs s' where
      r: "process_serial_data py_int py_float (Inr raw) cl now s = Inr (cs, s')"
      and t: "last_good_frame_time s' = now"
      by blast
    show "parses py_int py_float raw \<and> raws_in_float_range py_int raw"
    proof (rule ccontr)
      assume "\<not> (parses py_int py_float raw \<and> raws_in_float_range py_int raw)"
      from no [OF this] r have "last_good_frame_time s' = last_good_frame_time s"
        by auto
      with t fresh show False by simp
    qed
  qed
  from yes no iff show ?thesis by blast
qed

theorem line_accepted_iff_parses_in_range_witness:
  "parses int_literal float_literal (line ''5000,-10,7,2.5,junk'') \<and>
   raws_in_float_range int_literal (line ''5000,-10,7,2.5,junk'') \<and>
   process_serial_data int_literal float_literal (Inr (line ''5000,-10,7,2.5,junk'')) (Inr ()) 11
       connected_boot
     = Inr ([], connected_boot\<lparr>shift_indicator := Some 7,
              fuel_consumption := Some (Finite (5 / 2)),
              smoothed_engine_rpm := 190700 / 91, smoothed_rudder_angle := 14018 / 91,
              rudder_angle := 14018 / 91, engine_rpm := 190700 / 91,
              last_good_frame_time := 11\<rparr>) \<and>
   \<not> parses int_literal float_literal (line ''1,2,3'') \<and>
   parses int_literal float_literal big_line \<and>
   \<not> raws_in_float_range int_literal big_line \<and>
   last_good_frame_time connected_boot = 10 \<and>
   (\<exists>cs s'. process_serial_data int_literal float_literal (Inr (line ''1,2,3'')) (Inr ()) 11
            connected_boot = Inr (cs, s')
       \<and> last_good_frame_time s' = 10 \<and> rudder_angle s' = 180 \<and> engine_rpm s' = 3000) \<and>
   (\<exists>cs s'. process_serial_data int_literal float_literal (Inr big_line) (Inr ()) 11
            connected_boot = Inr (cs, s')
       \<and> last_good_frame_time s' = 10 \<and> rudder_angle s' = 180 \<and> engine_rpm s' = 3000)"
proof -
  have s: "ser connected_boot = Some (Serial SERIAL_PORT SERIAL_BAUD)"
    by (simp add: connected_boot_def)
  have p: "parses int_literal float_literal (line ''5000,-10,7,2.5,junk'')"
    by (simp add: parses_def ex_fields5 ex_parse5)
  have i: "raws_in_float_range int_literal (line ''5000,-10,7,2.5,junk'')"
    by (simp add: raws_in_float_range_def ex_fields5 ex_parse5 in_float_range_def
        float_overflow_def)
  have q: "\<not> parses int_literal float_literal (line ''1,2,3'')"
    by (simp add: parses_def ex_fields6)
  have pb: "parses int_literal float_literal big_line"
    by (simp add: parses_def big_fields big_value ex_parse_big)
  have ib: "\<not> raws_in_float_range int_literal big_line"
    by (simp add: raws_in_float_range_def big_fields big_value ex_parse_big big_overflows)
  have t: "last_good_frame_time connected_boot = 10 \<and> rudder_angle connected_boot = 180
             \<and> engine_rpm connected_boot = 3000"
    by (simp add: connected_boot_def boot_def set_no_data_state_eq)
  have v: "accepted 5000 (- 10) 7 (Finite (5 / 2)) 11 connected_boot
     = connected_boot\<lparr>shift_indicator := Some 7, fuel_consumption := Some (Finite (5 / 2)),
              smoothed_engine_rpm := 190700 / 91, smoothed_rudder_angle := 14018 / 91,
              rudder_angle := 14018 / 91, engine_rpm := 190700 / 91,
              last_good_frame_time := 11\<rparr>"
    by (simp add: accepted_def blend_def connected_boot_def boot_def set_no_data_state_eq
        module_state_def)
  from line_accepted_iff_parses_in_range
         [OF s, of int_literal float_literal "line ''5000,-10,7,2.5,junk''" "Inr ()" 11] p i
  have a: "process_serial_data int_literal float_literal (Inr (line ''5000,-10,7,2.5,junk''))
       (Inr ()) 11 connected_boot
         = Inr ([], accepted 5000 (- 10) 7 (Finite (5 / 2)) 11 connected_boot)"
    by (auto simp: ex_fields5 ex_parse5)
  from line_accepted_iff_parses_in_range
         [OF s, of int_literal float_literal "line ''1,2,3''" "Inr ()" 11] q t
  have b: "\<exists>cs s'. process_serial_data int_literal float_literal (Inr (line ''1,2,3'')) (Inr ()) 11
            connected_boot = Inr (cs, s')
       \<and> last_good_frame_time s' = 10 \<and> rudder_angle s' = 180 \<and> engine_rpm s' = 3000"
    by auto
  from line_accepted_iff_parses_in_range
         [OF s, of int_literal float_literal big_line "Inr ()" 11] ib t
  have c: "\<exists>cs s'. process_serial_data int_literal float_literal (Inr big_line) (Inr ()) 11
            connected_boot = Inr (cs, s')
       \<and> last_good_frame_time s' = 10 \<and> rudder_angle s' = 180 \<and> engine_rpm s' = 3000"
    by auto
  from p i a v q pb ib t b c show ?thesis by simp
qed

end
